theory Spec2Isabelle
  imports Main
begin

section \<open>JavaScript values used by the server\<close>

text \<open>
  Strings are HOL strings: one \<open>char\<close> stands for one character of the JavaScript string
  (exact for ASCII text, which is all the code's own literals use). Numbers that reach
  this code are integers (page sizes, ids, counts, status codes), modelled as \<open>int\<close>;
  \<open>NaN\<close> is written out where the code can produce it.
\<close>

abbreviation NL :: char where
  "NL \<equiv> CHR 0x0A"

text \<open>\<open>Array.prototype.join\<close> on an array of strings.\<close>

fun join :: "string \<Rightarrow> string list \<Rightarrow> string" where
  "join sep [] = []"
| "join sep [x] = x"
| "join sep (x # y # ys) = x @ sep @ join sep (y # ys)"

text \<open>Decimal rendering of a number, as a template literal or \<open>String(n)\<close> prints an integer.\<close>

definition digitChar :: "nat \<Rightarrow> char" where
  "digitChar d = ''0123456789ABCDEF'' ! d"

fun natToString :: "nat \<Rightarrow> string" where
  "natToString n = (if n < 10 then [digitChar n] else natToString (n div 10) @ [digitChar (n mod 10)])"

declare natToString.simps [simp del]

definition numToString :: "int \<Rightarrow> string" where
  "numToString i = (if i < 0 then ''-'' @ natToString (nat (- i)) else natToString (nat i))"

text \<open>
  \<open>encodeURIComponent\<close>: the unreserved characters are kept, every other character is
  written as \<open>%XX\<close> (for ASCII text; beyond ASCII a \<open>char\<close> stands for one UTF-8 byte).
\<close>

definition unreserved :: "char \<Rightarrow> bool" where
  "unreserved c =
     (let n = (of_char c :: nat)
      in (65 \<le> n \<and> n \<le> 90) \<or> (97 \<le> n \<and> n \<le> 122) \<or> (48 \<le> n \<and> n \<le> 57) \<or>
         c \<in> set ''-_.!~*()'' \<or> c = CHR 0x27)"

definition percentEncode :: "char \<Rightarrow> string" where
  "percentEncode c =
     (if unreserved c then [c]
      else [CHR ''%'', digitChar (of_char c div 16), digitChar (of_char c mod 16)])"

definition encodeURIComponent :: "string \<Rightarrow> string" where
  "encodeURIComponent s = concat (map percentEncode s)"

section \<open>Pagination utilities (utils/pagination.ts)\<close>

record PaginationParams =
  pagelen :: "int option"
  page :: "int option"
  q :: "string option"
  sortBy :: "string option"

text \<open>
  The raw envelope \<open>BitbucketPaginatedResponse<T>\<close>; its optional fields are \<open>None\<close> when
  the envelope omits them. The fields are named after the source's \<open>size\<close>, \<open>page\<close>,
  \<open>pagelen\<close>, \<open>next\<close>, \<open>previous\<close> and \<open>values\<close>.
\<close>

record 'a BitbucketPaginatedResponse =
  size_b :: "int option"
  page_b :: "int option"
  pagelen_b :: "int option"
  next_b :: "string option"
  previous_b :: "string option"
  values_b :: "'a list"

record 'a PaginatedResponse =
  items :: "'a list"
  count :: nat
  total :: "int option"
  hasMore :: bool
  nextCursor :: "string option"

definition PAGINATION_DEFAULTS_pagelen :: int where
  "PAGINATION_DEFAULTS_pagelen = 20"

definition PAGINATION_DEFAULTS_maxPagelen :: int where
  "PAGINATION_DEFAULTS_maxPagelen = 100"

text \<open>
  \<open>params?.pagelen || PAGINATION_DEFAULTS.pagelen\<close>: the default replaces an absent
  page size and the falsy number 0.
\<close>

definition pagelenOrDefault :: "PaginationParams option \<Rightarrow> int" where
  "pagelenOrDefault params =
     (case params of
        None \<Rightarrow> PAGINATION_DEFAULTS_pagelen
      | Some p \<Rightarrow>
          (case pagelen p of
             None \<Rightarrow> PAGINATION_DEFAULTS_pagelen
           | Some n \<Rightarrow> if n = 0 then PAGINATION_DEFAULTS_pagelen else n))"

text \<open>
  \<open>normalizePaginationParams(params?, maxPagelen = PAGINATION_DEFAULTS.maxPagelen)\<close>;
  an omitted second argument is \<open>None\<close>.
\<close>

definition normalizePaginationParams :: "PaginationParams option \<Rightarrow> int option \<Rightarrow> PaginationParams" where
  "normalizePaginationParams params maxPagelen =
     \<lparr> pagelen = Some (min (pagelenOrDefault params)
                         (case maxPagelen of None \<Rightarrow> PAGINATION_DEFAULTS_maxPagelen | Some m \<Rightarrow> m)),
       page = (case params of None \<Rightarrow> None | Some p \<Rightarrow> page p),
       q = (case params of None \<Rightarrow> None | Some p \<Rightarrow> q p),
       sortBy = (case params of None \<Rightarrow> None | Some p \<Rightarrow> sortBy p) \<rparr>"

text \<open>\<open>!!response.next\<close>: a string is truthy when it is present and not empty.\<close>

definition truthyString :: "string option \<Rightarrow> bool" where
  "truthyString s = (case s of None \<Rightarrow> False | Some v \<Rightarrow> v \<noteq> [])"

definition convertPaginatedResponse :: "'a BitbucketPaginatedResponse \<Rightarrow> 'a PaginatedResponse" where
  "convertPaginatedResponse response =
     \<lparr> items = values_b response,
       count = length (values_b response),
       total = size_b response,
       hasMore = truthyString (next_b response),
       nextCursor = next_b response \<rparr>"

definition emptyPaginatedResponse :: "'a PaginatedResponse" where
  "emptyPaginatedResponse =
     \<lparr> items = [], count = 0, total = None, hasMore = False, nextCursor = None \<rparr>"

text \<open>
  \<open>buildPaginationQuery\<close>: each \<open>if (params.x)\<close> tests truthiness, so 0 and the empty
  string are skipped like an absent field.
\<close>

definition numPart :: "string \<Rightarrow> int option \<Rightarrow> string list" where
  "numPart key v =
     (case v of None \<Rightarrow> [] | Some n \<Rightarrow> if n = 0 then [] else [key @ ''='' @ numToString n])"

definition strPart :: "string \<Rightarrow> string option \<Rightarrow> string list" where
  "strPart key v =
     (case v of None \<Rightarrow> [] | Some s \<Rightarrow> if s = [] then [] else [key @ ''='' @ encodeURIComponent s])"

definition buildPaginationQuery :: "PaginationParams option \<Rightarrow> string" where
  "buildPaginationQuery params =
     (case params of
        None \<Rightarrow> []
      | Some p \<Rightarrow>
          (let queryParts = numPart ''pagelen'' (pagelen p) @ numPart ''page'' (page p) @
                            strPart ''q'' (q p) @ strPart ''sort'' (sortBy p)
           in if queryParts \<noteq> [] then ''?'' @ join ''&'' queryParts else []))"

section \<open>JSON values and the JavaScript operations the code applies to them\<close>

text \<open>
  What the client returns and the formatter receives (\<open>unknown\<close> in the source) is a JSON
  value. \<open>JObj\<close> lists the own properties of an object in the order \<open>Object.keys\<close>
  enumerates them, each key once. A value that may be \<open>undefined\<close> is a \<open>json option\<close>.
\<close>

datatype json =
    JNull
  | JBool bool
  | JNum int
  | JStr string
  | JArr "json list"
  | JObj "(string \<times> json) list"

text \<open>A number that may be \<open>NaN\<close> (the result of \<open>Number.parseInt\<close> and of \<open>ToNumber\<close>).\<close>

datatype jsnum = NaN | Num int

text \<open>
  The values the code throws. The three classes of \<open>utils/errors.ts\<close> carry the arguments
  their constructors are called with in \<open>client.ts\<close>; \<open>JsError name message\<close> is an error
  object of the runtime (\<open>TypeError\<close>, \<open>SyntaxError\<close>) or a plain \<open>Error\<close>;
  \<open>PlainValue s\<close> is a thrown value that is not an error object, \<open>s\<close> being \<open>String(value)\<close>.
\<close>

datatype thrown =
    RateLimitError string jsnum
  | AuthenticationError string
  | BitbucketApiError string int
  | JsError string string
  | PlainValue string

definition typeError :: "string \<Rightarrow> thrown" where
  "typeError what = JsError ''TypeError'' what"

text \<open>\<open>error.message\<close>: the message the error was constructed with.\<close>

fun messageOf :: "thrown \<Rightarrow> string" where
  "messageOf (RateLimitError m r) = m"
| "messageOf (AuthenticationError m) = m"
| "messageOf (BitbucketApiError m st) = m"
| "messageOf (JsError n m) = m"
| "messageOf (PlainValue s) = ''undefined''"

definition bindE :: "'e + 'a \<Rightarrow> ('a \<Rightarrow> 'e + 'b) \<Rightarrow> 'e + 'b" where
  "bindE m f = (case m of Inl e \<Rightarrow> Inl e | Inr v \<Rightarrow> f v)"

text \<open>A \<open>for ... of\<close> loop that builds one line per element and stops at the first throw.\<close>

primrec mapE :: "('a \<Rightarrow> 'e + 'b) \<Rightarrow> 'a list \<Rightarrow> 'e + 'b list" where
  "mapE f [] = Inr []"
| "mapE f (x # xs) =
     (case f x of
        Inl e \<Rightarrow> Inl e
      | Inr y \<Rightarrow> (case mapE f xs of Inl e \<Rightarrow> Inl e | Inr ys \<Rightarrow> Inr (y # ys)))"

text \<open>Truthiness (\<open>if (v)\<close>, \<open>v || d\<close>, \<open>v ? a : b\<close>, \<open>!!v\<close>).\<close>

fun truthy :: "json option \<Rightarrow> bool" where
  "truthy None = False"
| "truthy (Some JNull) = False"
| "truthy (Some (JBool b)) = b"
| "truthy (Some (JNum n)) = (n \<noteq> 0)"
| "truthy (Some (JStr s)) = (s \<noteq> [])"
| "truthy (Some (JArr xs)) = True"
| "truthy (Some (JObj kvs)) = True"

definition orElse :: "json option \<Rightarrow> json option \<Rightarrow> json option" where
  "orElse a b = (if truthy a then a else b)"

text \<open>
  Reading a named property. The names the code reads (\<open>hash\<close>, \<open>author\<close>, \<open>display_name\<close>,
  ...) are no members of \<open>Object.prototype\<close>, \<open>Array.prototype\<close> or of the wrappers of
  strings, numbers and booleans, so the result is the own property of an object and
  \<open>undefined\<close> for every other value. \<open>dot\<close> is \<open>x.k\<close>, which throws on \<open>null\<close> and
  \<open>undefined\<close>; \<open>dotOpt\<close> is \<open>x?.k\<close>.
\<close>

definition own :: "json \<Rightarrow> string \<Rightarrow> json option" where
  "own v k = (case v of JObj kvs \<Rightarrow> map_of kvs k | _ \<Rightarrow> None)"

definition dot :: "json option \<Rightarrow> string \<Rightarrow> thrown + json option" where
  "dot x k =
     (case x of
        None \<Rightarrow> Inl (typeError (''Cannot read properties of undefined (reading '' @ k @ '')''))
      | Some JNull \<Rightarrow> Inl (typeError (''Cannot read properties of null (reading '' @ k @ '')''))
      | Some v \<Rightarrow> Inr (own v k))"

definition dotOpt :: "json option \<Rightarrow> string \<Rightarrow> json option" where
  "dotOpt x k = (case x of None \<Rightarrow> None | Some JNull \<Rightarrow> None | Some v \<Rightarrow> own v k)"

text \<open>
  \<open>String(v)\<close> and \<open>${v}\<close>. An array is joined with commas, \<open>null\<close> elements printing as
  the empty string; an object prints as \<open>[object Object]\<close>, unless it has an own property
  \<open>toString\<close>, which (never callable in JSON) makes the conversion throw.
\<close>

fun toStr :: "json \<Rightarrow> thrown + string"
  and toStrElems :: "json list \<Rightarrow> thrown + string list" where
  "toStr JNull = Inr ''null''"
| "toStr (JBool b) = Inr (if b then ''true'' else ''false'')"
| "toStr (JNum n) = Inr (numToString n)"
| "toStr (JStr s) = Inr s"
| "toStr (JArr xs) = (case toStrElems xs of Inl e \<Rightarrow> Inl e | Inr ss \<Rightarrow> Inr (join '','' ss))"
| "toStr (JObj kvs) =
     (if ''toString'' \<in> set (map fst kvs)
      then Inl (typeError ''Cannot convert object to primitive value'')
      else Inr ''[object Object]'')"
| "toStrElems [] = Inr []"
| "toStrElems (x # xs) =
     (case (if x = JNull then Inr [] else toStr x) of
        Inl e \<Rightarrow> Inl e
      | Inr s \<Rightarrow> (case toStrElems xs of Inl e \<Rightarrow> Inl e | Inr ss \<Rightarrow> Inr (s # ss)))"

definition tpl :: "json option \<Rightarrow> thrown + string" where
  "tpl v = (case v of None \<Rightarrow> Inr ''undefined'' | Some j \<Rightarrow> toStr j)"

text \<open>\<open>${x.k}\<close> for an element \<open>x\<close> of an array.\<close>

definition field :: "json \<Rightarrow> string \<Rightarrow> thrown + string" where
  "field x k = bindE (dot (Some x) k) tpl"

text \<open>White space and decimal digits (ASCII), for \<open>trim\<close>, \<open>parseInt\<close> and \<open>ToNumber\<close>.\<close>

definition isSpace :: "char \<Rightarrow> bool" where
  "isSpace c = (let n = (of_char c :: nat) in n = 32 \<or> (9 \<le> n \<and> n \<le> 13))"

definition isDigit :: "char \<Rightarrow> bool" where
  "isDigit c = (let n = (of_char c :: nat) in 48 \<le> n \<and> n \<le> 57)"

definition digitsValue :: "string \<Rightarrow> int" where
  "digitsValue ds = foldl (\<lambda>acc c. 10 * acc + (int (of_char c) - 48)) 0 ds"

text \<open>
  \<open>Number.parseInt(s, 10)\<close>: leading white space is skipped, a sign is read, then the
  longest run of decimal digits; no digit gives \<open>NaN\<close>.
\<close>

definition signedDigits :: "string \<Rightarrow> bool \<times> string" where
  "signedDigits s =
     (case s of
        [] \<Rightarrow> (False, [])
      | c # cs \<Rightarrow> if c = CHR ''-'' then (True, cs) else if c = CHR ''+'' then (False, cs) else (False, s))"

definition parseInt10 :: "string \<Rightarrow> jsnum" where
  "parseInt10 s =
     (let (neg, r) = signedDigits (dropWhile isSpace s); ds = takeWhile isDigit r
      in if ds = [] then NaN else Num (if neg then - digitsValue ds else digitsValue ds))"

definition trim :: "string \<Rightarrow> string" where
  "trim s = rev (dropWhile isSpace (rev (dropWhile isSpace s)))"

text \<open>
  \<open>ToNumber\<close>, for the arithmetic on a pipeline's duration. A string converts when it is
  a decimal integer (other numeric literals denote no integer or are not decimal, and
  are left as \<open>NaN\<close> here).
\<close>

definition stringToNumber :: "string \<Rightarrow> jsnum" where
  "stringToNumber s =
     (let t = trim s; (neg, r) = signedDigits t
      in if t = [] then Num 0
         else if r \<noteq> [] \<and> list_all isDigit r then Num (if neg then - digitsValue r else digitsValue r)
         else NaN)"

definition toNumber :: "json \<Rightarrow> thrown + jsnum" where
  "toNumber v =
     (case v of
        JNull \<Rightarrow> Inr (Num 0)
      | JBool b \<Rightarrow> Inr (Num (if b then 1 else 0))
      | JNum n \<Rightarrow> Inr (Num n)
      | JStr s \<Rightarrow> Inr (stringToNumber s)
      | JArr xs \<Rightarrow> bindE (toStr v) (\<lambda>s. Inr (stringToNumber s))
      | JObj kvs \<Rightarrow> bindE (toStr v) (\<lambda>s. Inr NaN))"

definition jsnumToString :: "jsnum \<Rightarrow> string" where
  "jsnumToString n = (case n of NaN \<Rightarrow> ''NaN'' | Num i \<Rightarrow> numToString i)"

text \<open>\<open>s.includes(sub)\<close>.\<close>

fun includesStr :: "string \<Rightarrow> string \<Rightarrow> bool" where
  "includesStr [] sub = (sub = [])"
| "includesStr (c # cs) sub = (take (length sub) (c # cs) = sub \<or> includesStr cs sub)"

text \<open>\<open>toUpperCase\<close> of one character (ASCII letters).\<close>

definition toUpperChar :: "char \<Rightarrow> char" where
  "toUpperChar c = (let n = (of_char c :: nat) in if 97 \<le> n \<and> n \<le> 122 then char_of (n - 32) else c)"

definition isUpperChar :: "char \<Rightarrow> bool" where
  "isUpperChar c = (let n = (of_char c :: nat) in 65 \<le> n \<and> n \<le> 90)"

text \<open>
  \<open>JSON.stringify(value, null, 2)\<close>: two spaces of indentation per level, one member
  per line, \<open>[]\<close> and \<open>{}\<close> for the empty array and object.
\<close>

definition escapeChar :: "char \<Rightarrow> string" where
  "escapeChar c =
     (let n = (of_char c :: nat)
      in if c = CHR 0x22 then [CHR 0x5C, CHR 0x22]
         else if c = CHR 0x5C then [CHR 0x5C, CHR 0x5C]
         else if n = 8 then [CHR 0x5C, CHR ''b'']
         else if n = 12 then [CHR 0x5C, CHR ''f'']
         else if n = 10 then [CHR 0x5C, CHR ''n'']
         else if n = 13 then [CHR 0x5C, CHR ''r'']
         else if n = 9 then [CHR 0x5C, CHR ''t'']
         else if n < 32 then [CHR 0x5C, CHR ''u'', CHR ''0'', CHR ''0'', digitChar (n div 16),
                              ''0123456789abcdef'' ! (n mod 16)]
         else [c])"

definition quoteJson :: "string \<Rightarrow> string" where
  "quoteJson s = [CHR 0x22] @ concat (map escapeChar s) @ [CHR 0x22]"

fun stringifyAt :: "string \<Rightarrow> json \<Rightarrow> string"
  and stringifyElems :: "string \<Rightarrow> json list \<Rightarrow> string list"
  and stringifyMembers :: "string \<Rightarrow> (string \<times> json) list \<Rightarrow> string list" where
  "stringifyAt ind JNull = ''null''"
| "stringifyAt ind (JBool b) = (if b then ''true'' else ''false'')"
| "stringifyAt ind (JNum n) = numToString n"
| "stringifyAt ind (JStr s) = quoteJson s"
| "stringifyAt ind (JArr xs) =
     (if xs = [] then ''[]''
      else ''['' @ [NL] @ join ('','' @ [NL]) (stringifyElems (ind @ ''  '') xs) @ [NL] @ ind @ '']'')"
| "stringifyAt ind (JObj kvs) =
     (if kvs = [] then ''{}''
      else ''{'' @ [NL] @ join ('','' @ [NL]) (stringifyMembers (ind @ ''  '') kvs) @ [NL] @ ind @ ''}'')"
| "stringifyElems ind [] = []"
| "stringifyElems ind (x # xs) = (ind @ stringifyAt ind x) # stringifyElems ind xs"
| "stringifyMembers ind [] = []"
| "stringifyMembers ind ((k, v) # kvs) =
     (ind @ quoteJson k @ '': '' @ stringifyAt ind v) # stringifyMembers ind kvs"

definition stringify :: "json \<Rightarrow> string" where
  "stringify v = stringifyAt [] v"

section \<open>Tenant credentials (types/env.ts)\<close>

record TenantCredentials =
  username :: "string option"
  appPassword :: "string option"
  accessToken :: "string option"
  baseUrl :: "string option"

text \<open>\<open>headers.get(name) || undefined\<close>: an empty header value counts as no value.\<close>

definition headerOrUndefined :: "(string \<Rightarrow> string option) \<Rightarrow> string \<Rightarrow> string option" where
  "headerOrUndefined hget name = (if truthyString (hget name) then hget name else None)"

definition parseTenantCredentials :: "(string \<Rightarrow> string option) \<Rightarrow> TenantCredentials" where
  "parseTenantCredentials hget =
     \<lparr> username = headerOrUndefined hget ''X-Bitbucket-Username'',
       appPassword = headerOrUndefined hget ''X-Bitbucket-App-Password'',
       accessToken = headerOrUndefined hget ''X-Bitbucket-Access-Token'',
       baseUrl = headerOrUndefined hget ''X-Bitbucket-Base-URL'' \<rparr>"

definition MISSING_CREDENTIALS_MESSAGE :: string where
  "MISSING_CREDENTIALS_MESSAGE =
     ''Missing credentials. Provide either X-Bitbucket-Username + X-Bitbucket-App-Password headers, '' @
     ''or X-Bitbucket-Access-Token header.''"

definition validateCredentials :: "TenantCredentials \<Rightarrow> thrown + unit" where
  "validateCredentials credentials =
     (let hasBasicAuth = truthyString (username credentials) \<and> truthyString (appPassword credentials);
          hasOAuth = truthyString (accessToken credentials)
      in if \<not> hasBasicAuth \<and> \<not> hasOAuth
         then Inl (JsError ''Error'' MISSING_CREDENTIALS_MESSAGE)
         else Inr ())"

section \<open>The client (client.ts)\<close>

definition API_BASE_URL :: string where
  "API_BASE_URL = ''https://api.bitbucket.org/2.0''"

record BitbucketClientImpl =
  credentials :: TenantCredentials
  clientBaseUrl :: string

text \<open>The constructor: it stores the credentials and picks the base URL, nothing else.\<close>

definition newBitbucketClientImpl :: "TenantCredentials \<Rightarrow> BitbucketClientImpl" where
  "newBitbucketClientImpl creds =
     \<lparr> credentials = creds,
       clientBaseUrl = (case baseUrl creds of
                          None \<Rightarrow> API_BASE_URL
                        | Some u \<Rightarrow> if u = [] then API_BASE_URL else u) \<rparr>"

definition createBitbucketClient :: "TenantCredentials \<Rightarrow> BitbucketClientImpl" where
  "createBitbucketClient creds = newBitbucketClientImpl creds"

text \<open>\<open>btoa\<close>: base64 of a string of characters below 256.\<close>

definition b64 :: "nat \<Rightarrow> char" where
  "b64 n = ''ABCDEFGHIJKLMNOPQRSTUVWXYZabcdefghijklmnopqrstuvwxyz0123456789+/'' ! n"

fun btoaBytes :: "nat list \<Rightarrow> string" where
  "btoaBytes [] = []"
| "btoaBytes [a] = [b64 (a div 4), b64 ((a mod 4) * 16), CHR ''='', CHR ''='']"
| "btoaBytes [a, b] =
     [b64 (a div 4), b64 ((a mod 4) * 16 + b div 16), b64 ((b mod 16) * 4), CHR ''='']"
| "btoaBytes (a # b # c # r) =
     [b64 (a div 4), b64 ((a mod 4) * 16 + b div 16), b64 ((b mod 16) * 4 + c div 64), b64 (c mod 64)]
     @ btoaBytes r"

definition btoa :: "string \<Rightarrow> string" where
  "btoa s = btoaBytes (map of_char s)"

definition NO_CREDENTIALS_MESSAGE :: string where
  "NO_CREDENTIALS_MESSAGE =
     ''No credentials provided. Include X-Bitbucket-Username + X-Bitbucket-App-Password headers, '' @
     ''or X-Bitbucket-Access-Token header.''"

text \<open>The string held by an optional field that was tested truthy.\<close>

definition strVal :: "string option \<Rightarrow> string" where
  "strVal s = (case s of None \<Rightarrow> [] | Some v \<Rightarrow> v)"

definition getAuthHeaders :: "BitbucketClientImpl \<Rightarrow> thrown + (string \<times> string) list" where
  "getAuthHeaders this =
     (if truthyString (accessToken (credentials this)) then
        Inr [(''Authorization'', ''Bearer '' @ strVal (accessToken (credentials this))),
             (''Content-Type'', ''application/json'')]
      else if truthyString (username (credentials this)) \<and> truthyString (appPassword (credentials this)) then
        Inr [(''Authorization'',
              ''Basic '' @ btoa (strVal (username (credentials this)) @ '':'' @
                                 strVal (appPassword (credentials this)))),
             (''Content-Type'', ''application/json'')]
      else Inl (AuthenticationError NO_CREDENTIALS_MESSAGE))"

text \<open>
  The HTTP exchange. \<open>fetch\<close> is the network: a parameter that maps the URL and the
  request to a response or to a rejection. Of a response the code reads the status, the
  headers through \<open>headers.get\<close>, the body as text, and the body parsed as JSON
  (\<open>None\<close> when the body is no JSON text, where \<open>JSON.parse\<close> and \<open>response.json()\<close>
  throw a \<open>SyntaxError\<close>).
\<close>

record Response =
  status :: int
  headersGet :: "string \<Rightarrow> string option"
  bodyText :: string
  bodyJson :: "json option"

record RequestInit =
  reqMethod :: "string option"
  reqBody :: "string option"
  reqHeaders :: "(string \<times> string) list"

definition ok :: "Response \<Rightarrow> bool" where
  "ok response = (200 \<le> status response \<and> status response \<le> 299)"

text \<open>Object spread \<open>{...a, ...b}\<close> of two header records: \<open>b\<close> overrides \<open>a\<close>.\<close>

definition spread :: "(string \<times> string) list \<Rightarrow> (string \<times> string) list \<Rightarrow> (string \<times> string) list" where
  "spread a b =
     map (\<lambda>(k, v). (k, case map_of b k of None \<Rightarrow> v | Some w \<Rightarrow> w)) a @
     filter (\<lambda>(k, v). k \<notin> set (map fst a)) b"

definition AUTH_FAILED_MESSAGE :: string where
  "AUTH_FAILED_MESSAGE = ''Authentication failed. Check your Bitbucket credentials.''"

text \<open>
  \<open>errorJson.error?.message || errorJson.message || errorJson.error || message\<close>, inside
  the \<open>try\<close> whose \<open>catch\<close> keeps the default message.
\<close>

definition errorMessageOf :: "json option \<Rightarrow> string \<Rightarrow> json" where
  "errorMessageOf parsed dflt =
     (case parsed of
        None \<Rightarrow> JStr dflt
      | Some JNull \<Rightarrow> JStr dflt
      | Some errorJson \<Rightarrow>
          (case orElse (dotOpt (own errorJson ''error'') ''message'')
                  (orElse (own errorJson ''message'')
                     (orElse (own errorJson ''error'') (Some (JStr dflt)))) of
             None \<Rightarrow> JStr dflt
           | Some m \<Rightarrow> m))"

text \<open>
  What \<open>request\<close> does with the response, in the order of the source: 429, then 401 and
  403, then any other status that is not ok, then 204, then text, then JSON. The message
  given to an error's constructor is stored as a string.
\<close>

definition handleResponse :: "Response \<Rightarrow> thrown + json option" where
  "handleResponse response =
     (if status response = 429 then
        (let retryAfter = headersGet response ''Retry-After''
         in Inl (RateLimitError ''Rate limit exceeded''
                   (case retryAfter of
                      None \<Rightarrow> Num 60
                    | Some v \<Rightarrow> if v \<noteq> [] then parseInt10 v else Num 60)))
      else if status response = 401 \<or> status response = 403 then
        Inl (AuthenticationError AUTH_FAILED_MESSAGE)
      else if \<not> ok response then
        (case toStr (errorMessageOf (bodyJson response)
                       (''API error: '' @ numToString (status response))) of
           Inl e \<Rightarrow> Inl e
         | Inr message \<Rightarrow> Inl (BitbucketApiError message (status response)))
      else if status response = 204 then Inr None
      else
        (let contentType = (case headersGet response ''content-type'' of None \<Rightarrow> [] | Some c \<Rightarrow> c)
         in if includesStr contentType ''text/plain'' \<or> includesStr contentType ''text/x-diff''
            then Inr (Some (JStr (bodyText response)))
            else (case bodyJson response of
                    None \<Rightarrow> Inl (JsError ''SyntaxError'' ''Unexpected token in JSON'')
                  | Some j \<Rightarrow> Inr (Some j))))"

definition request ::
  "BitbucketClientImpl \<Rightarrow> (string \<Rightarrow> RequestInit \<Rightarrow> thrown + Response) \<Rightarrow> string \<Rightarrow> RequestInit
     \<Rightarrow> thrown + json option" where
  "request this fetch endpoint options =
     (let url = clientBaseUrl this @ endpoint
      in case getAuthHeaders this of
           Inl e \<Rightarrow> Inl e
         | Inr auth \<Rightarrow>
             (case fetch url (options\<lparr>reqHeaders := spread auth (reqHeaders options)\<rparr>) of
                Inl e \<Rightarrow> Inl e
              | Inr response \<Rightarrow> handleResponse response))"

definition requestRaw ::
  "BitbucketClientImpl \<Rightarrow> (string \<Rightarrow> RequestInit \<Rightarrow> thrown + Response) \<Rightarrow> string \<Rightarrow> RequestInit
     \<Rightarrow> thrown + string" where
  "requestRaw this fetch endpoint options =
     (let url = clientBaseUrl this @ endpoint
      in case getAuthHeaders this of
           Inl e \<Rightarrow> Inl e
         | Inr auth \<Rightarrow>
             (case fetch url (options\<lparr>reqHeaders :=
                      spread (spread auth [(''Accept'', ''text/plain'')]) (reqHeaders options)\<rparr>) of
                Inl e \<Rightarrow> Inl e
              | Inr response \<Rightarrow>
                  if \<not> ok response
                  then Inl (BitbucketApiError (''API error: '' @ numToString (status response))
                              (status response))
                  else Inr (bodyText response)))"

section \<open>The worker's MCP endpoint (index.ts)\<close>

text \<open>
  \<open>POST /mcp\<close>: the credentials are parsed from the headers and validated; a failed
  validation is answered with status 401 and the error's message, and only validated
  credentials reach \<open>createStatelessServer\<close>, which creates the client.
\<close>

datatype mcpOutcome = Unauthorized string | Serving BitbucketClientImpl

definition mcpEndpoint :: "(string \<Rightarrow> string option) \<Rightarrow> mcpOutcome" where
  "mcpEndpoint hget =
     (let creds = parseTenantCredentials hget
      in case validateCredentials creds of
           Inl e \<Rightarrow> Unauthorized (case e of PlainValue v \<Rightarrow> ''Invalid credentials'' | _ \<Rightarrow> messageOf e)
         | Inr u \<Rightarrow> Serving (createBitbucketClient creds))"

section \<open>Response formatting (utils/formatters.ts)\<close>

record ContentItem =
  ctype :: string
  ctext :: string

record ToolResponse =
  content :: "ContentItem list"
  isError :: "bool option"

datatype ResponseFormat = FormatJson | FormatMarkdown

text \<open>
  \<open>utils/errors.ts\<close> is not among the sources. What \<open>formatError\<close> takes from it is a
  parameter: the test \<open>error instanceof BitbucketApiError\<close>, the truthiness of
  \<open>error.retryable\<close>, and \<open>formatErrorForLogging\<close>, taken as a function that returns
  (\<open>None\<close> for \<open>undefined\<close>).
\<close>

record errorsModule =
  instanceofBitbucketApiError :: "thrown \<Rightarrow> bool"
  retryableOf :: "thrown \<Rightarrow> bool"
  formatErrorForLogging :: "thrown \<Rightarrow> json option"

definition textResponse :: "string \<Rightarrow> ToolResponse" where
  "textResponse t = \<lparr> content = [\<lparr> ctype = ''text'', ctext = t \<rparr>], isError = None \<rparr>"

definition formatError :: "errorsModule \<Rightarrow> thrown \<Rightarrow> ToolResponse" where
  "formatError E error =
     (let errorInfo = formatErrorForLogging E error;
          message =
            (if instanceofBitbucketApiError E error then
               ''Error: '' @ messageOf error @ (if retryableOf E error then '' (retryable)'' else [])
             else (case error of
                     PlainValue s \<Rightarrow> ''Error: '' @ s
                   | _ \<Rightarrow> ''Error: '' @ messageOf error))
      in \<lparr> content =
             [\<lparr> ctype = ''text'',
                ctext = stringify (JObj ((''error'', JStr message) #
                         (case errorInfo of None \<Rightarrow> [] | Some d \<Rightarrow> [(''details'', d)]))) \<rparr>],
           isError = Some True \<rparr>)"

text \<open>
  \<open>new Date(v).toLocaleDateString()\<close> depends on the locale and the time zone of the
  runtime: it is the parameter \<open>D\<close> of the table formatters.
\<close>

definition dateCell :: "(json \<Rightarrow> string) \<Rightarrow> json option \<Rightarrow> string" where
  "dateCell D v = (case v of None \<Rightarrow> ''-'' | Some j \<Rightarrow> if truthy v then D j else ''-'')"

definition dash :: "json option" where
  "dash = Some (JStr ''-'')"

definition yesNo :: "json option \<Rightarrow> string" where
  "yesNo v = (if truthy v then ''Yes'' else ''No'')"

text \<open>Evaluating the cells of a row from left to right; the first throw ends the row.\<close>

definition cells :: "(thrown + string) list \<Rightarrow> thrown + string list" where
  "cells cs = mapE (\<lambda>c. c) cs"

definition rowOf :: "string list \<Rightarrow> string" where
  "rowOf cs = ''| '' @ join '' | '' cs @ '' |''"

definition tableOf :: "string \<Rightarrow> string \<Rightarrow> string list \<Rightarrow> string" where
  "tableOf header sep rows = join [NL] (header # sep # rows)"

text \<open>
  \<open>v.substring(0, n)\<close>: a method of strings only; on any other value the call throws.
\<close>

definition substring0 :: "nat \<Rightarrow> json option \<Rightarrow> thrown + string" where
  "substring0 n v =
     (case v of
        Some (JStr s) \<Rightarrow> Inr (take n s)
      | None \<Rightarrow> Inl (typeError ''Cannot read properties of undefined (reading substring)'')
      | Some JNull \<Rightarrow> Inl (typeError ''Cannot read properties of null (reading substring)'')
      | Some other \<Rightarrow> Inl (typeError ''substring is not a function''))"

text \<open>\<open>v.split('\n')[0].substring(0, 50)\<close>.\<close>

definition firstLine50 :: "json option \<Rightarrow> thrown + string" where
  "firstLine50 v =
     (case v of
        Some (JStr s) \<Rightarrow> Inr (take 50 (takeWhile (\<lambda>c. c \<noteq> NL) s))
      | None \<Rightarrow> Inl (typeError ''Cannot read properties of undefined (reading split)'')
      | Some JNull \<Rightarrow> Inl (typeError ''Cannot read properties of null (reading split)'')
      | Some other \<Rightarrow> Inl (typeError ''split is not a function''))"

text \<open>\<open>a?.display_name || a?.username || '-'\<close>.\<close>

definition accountName :: "json option \<Rightarrow> json option" where
  "accountName a = orElse (dotOpt a ''display_name'') (orElse (dotOpt a ''username'') dash)"

definition workspaceRow :: "json \<Rightarrow> thrown + string" where
  "workspaceRow ws =
     bindE (cells [field ws ''slug'', field ws ''name'', field ws ''uuid'']) (\<lambda>cs. Inr (rowOf cs))"

definition formatWorkspacesTable :: "json list \<Rightarrow> thrown + string" where
  "formatWorkspacesTable workspaces =
     bindE (mapE workspaceRow workspaces)
       (\<lambda>rows. Inr (tableOf ''| Slug | Name | UUID |'' ''|---|---|---|'' rows))"

definition repositoryRow :: "(json \<Rightarrow> string) \<Rightarrow> json \<Rightarrow> thrown + string" where
  "repositoryRow D repo =
     bindE (dot (Some repo) ''updated_on'') (\<lambda>u.
     bindE (cells [field repo ''name'', field repo ''full_name'',
                   bindE (dot (Some repo) ''is_private'') (\<lambda>p. Inr (yesNo p)),
                   bindE (dot (Some repo) ''language'') (\<lambda>l. tpl (orElse l dash)),
                   Inr (dateCell D u)])
       (\<lambda>cs. Inr (rowOf cs)))"

definition formatRepositoriesTable :: "(json \<Rightarrow> string) \<Rightarrow> json list \<Rightarrow> thrown + string" where
  "formatRepositoriesTable D repos =
     bindE (mapE (repositoryRow D) repos)
       (\<lambda>rows. Inr (tableOf ''| Name | Full Name | Private | Language | Updated |''
                       ''|---|---|---|---|---|'' rows))"

definition branchRow :: "json \<Rightarrow> thrown + string" where
  "branchRow branch =
     bindE (dot (Some branch) ''target'') (\<lambda>t.
     bindE (if truthy (dotOpt t ''hash'') then substring0 7 (dotOpt t ''hash'') else Inr ''-'') (\<lambda>commitHash.
     bindE (field branch ''name'') (\<lambda>n. Inr (rowOf [n, commitHash]))))"

definition formatBranchesTable :: "json list \<Rightarrow> thrown + string" where
  "formatBranchesTable branches =
     bindE (mapE branchRow branches)
       (\<lambda>rows. Inr (tableOf ''| Name | Target Commit |'' ''|---|---|'' rows))"

text \<open>
  A commit's row: \<open>commit.hash.substring(0, 7)\<close>,
  \<open>(commit.message || '-').split('\n')[0].substring(0, 50)\<close>,
  \<open>commit.author?.raw || commit.author?.user?.display_name || '-'\<close>, and the date.
\<close>

definition commitAuthor :: "json option \<Rightarrow> json option" where
  "commitAuthor a = orElse (dotOpt a ''raw'') (orElse (dotOpt (dotOpt a ''user'') ''display_name'') dash)"

definition commitRow :: "(json \<Rightarrow> string) \<Rightarrow> json \<Rightarrow> thrown + string" where
  "commitRow D commit =
     bindE (dot (Some commit) ''hash'') (\<lambda>h.
     bindE (substring0 7 h) (\<lambda>hash.
     bindE (firstLine50 (orElse (own commit ''message'') dash)) (\<lambda>message.
     bindE (tpl (commitAuthor (own commit ''author''))) (\<lambda>author.
       Inr (rowOf [hash, message, author, dateCell D (own commit ''date'')])))))"

definition formatCommitsTable :: "(json \<Rightarrow> string) \<Rightarrow> json list \<Rightarrow> thrown + string" where
  "formatCommitsTable D commits =
     bindE (mapE (commitRow D) commits)
       (\<lambda>rows. Inr (tableOf ''| Hash | Message | Author | Date |'' ''|---|---|---|---|'' rows))"

text \<open>
  A pull request's row. \<open>pr.source.branch.name\<close> and \<open>pr.destination.branch.name\<close>
  are read without a check.
\<close>

definition branchName :: "json \<Rightarrow> string \<Rightarrow> thrown + string" where
  "branchName pr side =
     bindE (dot (Some pr) side) (\<lambda>s. bindE (dot s ''branch'') (\<lambda>b. bindE (dot b ''name'') tpl))"

definition pullRequestRow :: "json \<Rightarrow> thrown + string" where
  "pullRequestRow pr =
     bindE (dot (Some pr) ''author'') (\<lambda>a.
     bindE (branchName pr ''source'') (\<lambda>src.
     bindE (branchName pr ''destination'') (\<lambda>dst.
     bindE (cells [field pr ''id'', field pr ''title'', field pr ''state'', tpl (accountName a)]) (\<lambda>cs.
       Inr (''| #'' @ join '' | '' (cs @ [src @ '' -> '' @ dst]) @ '' |'')))))"

definition formatPullRequestsTable :: "json list \<Rightarrow> thrown + string" where
  "formatPullRequestsTable prs =
     bindE (mapE pullRequestRow prs)
       (\<lambda>rows. Inr (tableOf ''| ID | Title | State | Author | Source -> Dest |''
                       ''|---|---|---|---|---|'' rows))"

definition issueRow :: "json \<Rightarrow> thrown + string" where
  "issueRow issue =
     bindE (dot (Some issue) ''assignee'') (\<lambda>a.
     bindE (cells [field issue ''id'', field issue ''title'', field issue ''state'',
                   field issue ''priority'', field issue ''kind'', tpl (accountName a)]) (\<lambda>cs.
       Inr (''| #'' @ join '' | '' cs @ '' |'')))"

definition formatIssuesTable :: "json list \<Rightarrow> thrown + string" where
  "formatIssuesTable issues =
     bindE (mapE issueRow issues)
       (\<lambda>rows. Inr (tableOf ''| ID | Title | State | Priority | Kind | Assignee |''
                       ''|---|---|---|---|---|---|'' rows))"

text \<open>
  A pipeline's duration: \<open>Math.floor(d / 60)\<close> minutes and \<open>d % 60\<close> seconds, the
  remainder taking the sign of \<open>d\<close>.
\<close>

definition durationText :: "jsnum \<Rightarrow> string" where
  "durationText d =
     (case d of
        NaN \<Rightarrow> ''NaNm NaNs''
      | Num n \<Rightarrow> numToString (n div 60) @ ''m '' @
                 numToString (if n < 0 then - ((- n) mod 60) else n mod 60) @ ''s'')"

definition pipelineRow :: "(json \<Rightarrow> string) \<Rightarrow> json \<Rightarrow> thrown + string" where
  "pipelineRow D pipeline =
     bindE (dot (Some pipeline) ''state'') (\<lambda>st.
     bindE (case own pipeline ''duration_in_seconds'' of
              None \<Rightarrow> Inr ''-''
            | Some d \<Rightarrow> if truthy (Some d) then bindE (toNumber d) (\<lambda>n. Inr (durationText n)) else Inr ''-'')
       (\<lambda>duration.
     bindE (cells [field pipeline ''build_number'',
                   tpl (orElse (dotOpt st ''name'') dash),
                   tpl (orElse (dotOpt (own pipeline ''target'') ''ref_name'') dash),
                   Inr duration,
                   Inr (dateCell D (own pipeline ''created_on''))]) (\<lambda>cs.
       Inr (''| #'' @ join '' | '' cs @ '' |''))))"

definition formatPipelinesTable :: "(json \<Rightarrow> string) \<Rightarrow> json list \<Rightarrow> thrown + string" where
  "formatPipelinesTable D pipelines =
     bindE (mapE (pipelineRow D) pipelines)
       (\<lambda>rows. Inr (tableOf ''| Build # | State | Target | Duration | Created |''
                       ''|---|---|---|---|---|'' rows))"

text \<open>\<open>webhook.events?.join(', ') || '-'\<close>: \<open>join\<close> is a method of arrays only.\<close>

definition eventsCell :: "json option \<Rightarrow> thrown + json option" where
  "eventsCell e =
     (case e of
        None \<Rightarrow> Inr dash
      | Some JNull \<Rightarrow> Inr dash
      | Some (JArr xs) \<Rightarrow> bindE (toStrElems xs) (\<lambda>ss. Inr (orElse (Some (JStr (join '', '' ss))) dash))
      | Some other \<Rightarrow> Inl (typeError ''join is not a function''))"

definition webhookRow :: "json \<Rightarrow> thrown + string" where
  "webhookRow webhook =
     bindE (dot (Some webhook) ''events'') (\<lambda>e.
     bindE (eventsCell e) (\<lambda>events.
     bindE (cells [field webhook ''uuid'', field webhook ''url'',
                   Inr (yesNo (own webhook ''active'')), tpl events]) (\<lambda>cs.
       Inr (rowOf cs))))"

definition formatWebhooksTable :: "json list \<Rightarrow> thrown + string" where
  "formatWebhooksTable webhooks =
     bindE (mapE webhookRow webhooks)
       (\<lambda>rows. Inr (tableOf ''| UUID | URL | Active | Events |'' ''|---|---|---|---|'' rows))"

text \<open>
  A comment's row: \<open>comment.user?.display_name || comment.user?.username || '-'\<close> and
  \<open>(comment.content?.raw || '-').substring(0, 50)\<close>.
\<close>

definition commentRow :: "(json \<Rightarrow> string) \<Rightarrow> json \<Rightarrow> thrown + string" where
  "commentRow D comment =
     bindE (dot (Some comment) ''user'') (\<lambda>u.
     bindE (substring0 50 (orElse (dotOpt (own comment ''content'') ''raw'') dash)) (\<lambda>content.
     bindE (cells [field comment ''id'', tpl (accountName u), Inr content,
                   Inr (dateCell D (own comment ''created_on''))]) (\<lambda>cs.
       Inr (rowOf cs))))"

definition formatCommentsTable :: "(json \<Rightarrow> string) \<Rightarrow> json list \<Rightarrow> thrown + string" where
  "formatCommentsTable D comments =
     bindE (mapE (commentRow D) comments)
       (\<lambda>rows. Inr (tableOf ''| ID | Author | Content | Created |'' ''|---|---|---|---|'' rows))"

text \<open>
  The generic table. \<open>Object.keys\<close> throws on \<open>null\<close>; it lists the own keys of an
  object, the indices of an array or of a string, and nothing for a number or a boolean.
  \<open>record[k]\<close> throws on \<open>null\<close> and reads an own property, an element or a character
  (a key that names a member of a prototype, such as \<open>constructor\<close>, reads that member in
  JavaScript where the record has no own property of the name; the model covers the keys
  that name none).
\<close>

definition indexKeys :: "nat \<Rightarrow> string list" where
  "indexKeys n = map natToString [0..<n]"

definition objectKeys :: "json \<Rightarrow> thrown + string list" where
  "objectKeys v =
     (case v of
        JNull \<Rightarrow> Inl (typeError ''Cannot convert undefined or null to object'')
      | JObj kvs \<Rightarrow> Inr (map fst kvs)
      | JArr xs \<Rightarrow> Inr (indexKeys (length xs))
      | JStr s \<Rightarrow> Inr (indexKeys (length s))
      | _ \<Rightarrow> Inr [])"

definition indexBy :: "json \<Rightarrow> string \<Rightarrow> thrown + json option" where
  "indexBy record k =
     (case record of
        JNull \<Rightarrow> Inl (typeError (''Cannot read properties of null (reading '' @ k @ '')''))
      | JObj kvs \<Rightarrow> Inr (map_of kvs k)
      | JArr xs \<Rightarrow>
          Inr (if k = ''length'' then Some (JNum (int (length xs)))
               else map_of (zip (indexKeys (length xs)) xs) k)
      | JStr s \<Rightarrow>
          Inr (if k = ''length'' then Some (JNum (int (length s)))
               else map_of (zip (indexKeys (length s)) (map (\<lambda>c. JStr [c]) s)) k)
      | _ \<Rightarrow> Inr None)"

text \<open>\<open>String(record[k] ?? '-')\<close>.\<close>

definition genericCell :: "json \<Rightarrow> string \<Rightarrow> thrown + string" where
  "genericCell record k =
     bindE (indexBy record k)
       (\<lambda>v. case v of None \<Rightarrow> Inr ''-'' | Some JNull \<Rightarrow> Inr ''-'' | Some j \<Rightarrow> toStr j)"

definition genericRow :: "string list \<Rightarrow> json \<Rightarrow> thrown + string" where
  "genericRow keys item = bindE (mapE (genericCell item) keys) (\<lambda>vs. Inr (rowOf vs))"

definition formatGenericTable :: "json list \<Rightarrow> thrown + string" where
  "formatGenericTable its =
     (case its of
        [] \<Rightarrow> Inr ''_No items_''
      | first # rest \<Rightarrow>
          bindE (objectKeys first) (\<lambda>ks.
            (let keys = take 5 ks
             in bindE (mapE (genericRow keys) its)
                  (\<lambda>rows. Inr (tableOf (rowOf keys)
                                  (''|'' @ join ''|'' (map (\<lambda>k. ''---'') keys) @ ''|'') rows)))))"

definition formatArrayAsMarkdown :: "json list \<Rightarrow> string \<Rightarrow> thrown + string" where
  "formatArrayAsMarkdown data entityType = formatGenericTable data"

text \<open>\<open>str.charAt(0).toUpperCase() + str.slice(1)\<close>.\<close>

definition capitalize :: "string \<Rightarrow> string" where
  "capitalize str = (case str of [] \<Rightarrow> [] | c # cs \<Rightarrow> toUpperChar c # cs)"

text \<open>
  \<open>formatKey\<close>: every underscore becomes a space, a space is put before every capital
  letter, the first character is capitalised, and the result is trimmed.
\<close>

definition formatKey :: "string \<Rightarrow> string" where
  "formatKey key =
     trim (capitalize (concat (map (\<lambda>c. if isUpperChar c then [CHR '' '', c] else [c])
                                 (map (\<lambda>c. if c = CHR ''_'' then CHR '' '' else c) key))))"

text \<open>\<open>entityType.replace(/s$/, '')\<close>.\<close>

definition dropFinalS :: "string \<Rightarrow> string" where
  "dropFinalS s = (if s \<noteq> [] \<and> last s = CHR ''s'' then butlast s else s)"

definition codeFence :: string where
  "codeFence = replicate 3 (CHR 0x60)"

definition objectEntryLines :: "string \<times> json \<Rightarrow> thrown + string list" where
  "objectEntryLines kv =
     (case snd kv of
        JNull \<Rightarrow> Inr []
      | JArr xs \<Rightarrow> Inr [''**'' @ formatKey (fst kv) @ '':**'', codeFence @ ''json'',
                         stringify (snd kv), codeFence]
      | JObj ms \<Rightarrow> Inr [''**'' @ formatKey (fst kv) @ '':**'', codeFence @ ''json'',
                         stringify (snd kv), codeFence]
      | v \<Rightarrow> bindE (toStr v) (\<lambda>s. Inr [''**'' @ formatKey (fst kv) @ '':** '' @ s]))"

definition formatObjectAsMarkdown :: "(string \<times> json) list \<Rightarrow> string \<Rightarrow> thrown + string" where
  "formatObjectAsMarkdown data entityType =
     bindE (mapE objectEntryLines data)
       (\<lambda>ls. Inr (join [NL] ([''## '' @ capitalize (dropFinalS entityType), []] @ concat ls)))"

text \<open>
  \<open>isPaginatedResponse\<close>: an object, not \<open>null\<close>, with a property \<open>items\<close> that is an
  array.
\<close>

definition isPaginatedResponse :: "json \<Rightarrow> bool" where
  "isPaginatedResponse data = (case own data ''items'' of Some (JArr xs) \<Rightarrow> True | _ \<Rightarrow> False)"

definition tableFor :: "(json \<Rightarrow> string) \<Rightarrow> string \<Rightarrow> json list \<Rightarrow> thrown + string" where
  "tableFor D entityType its =
     (if entityType = ''workspaces'' then formatWorkspacesTable its
      else if entityType = ''repositories'' then formatRepositoriesTable D its
      else if entityType = ''branches'' then formatBranchesTable its
      else if entityType = ''commits'' then formatCommitsTable D its
      else if entityType = ''pullrequests'' \<or> entityType = ''pull_requests'' then formatPullRequestsTable its
      else if entityType = ''issues'' then formatIssuesTable its
      else if entityType = ''pipelines'' then formatPipelinesTable D its
      else if entityType = ''webhooks'' then formatWebhooksTable its
      else if entityType = ''comments'' then formatCommentsTable D its
      else formatGenericTable its)"

definition showingLine :: "json \<Rightarrow> thrown + string" where
  "showingLine data =
     (if own data ''total'' \<noteq> None
      then bindE (tpl (own data ''total'')) (\<lambda>t.
           bindE (tpl (own data ''count'')) (\<lambda>c. Inr (''**Total:** '' @ t @ '' | **Showing:** '' @ c)))
      else bindE (tpl (own data ''count'')) (\<lambda>c. Inr (''**Showing:** '' @ c)))"

definition formatPaginatedAsMarkdown :: "(json \<Rightarrow> string) \<Rightarrow> json \<Rightarrow> string \<Rightarrow> thrown + string" where
  "formatPaginatedAsMarkdown D data entityType =
     bindE (showingLine data) (\<lambda>showing.
       (let lines = [''## '' @ capitalize entityType, [], showing] @
                    (if truthy (own data ''hasMore'') then [''**More available:** Yes''] else []) @ [[]]
        in case own data ''items'' of
             Some (JArr its) \<Rightarrow>
               if its = [] then Inr (join [NL] (lines @ [''_No items found._'']))
               else bindE (tableFor D entityType its) (\<lambda>t. Inr (join [NL] (lines @ [t])))
           | _ \<Rightarrow> Inl (typeError ''Cannot read properties of undefined (reading length)'')))"

definition formatAsMarkdown :: "(json \<Rightarrow> string) \<Rightarrow> json \<Rightarrow> string \<Rightarrow> thrown + string" where
  "formatAsMarkdown D data entityType =
     (if isPaginatedResponse data then formatPaginatedAsMarkdown D data entityType
      else (case data of
              JArr xs \<Rightarrow> formatArrayAsMarkdown xs entityType
            | JObj kvs \<Rightarrow> formatObjectAsMarkdown kvs entityType
            | _ \<Rightarrow> toStr data))"

definition formatResponse :: "(json \<Rightarrow> string) \<Rightarrow> json \<Rightarrow> ResponseFormat \<Rightarrow> string \<Rightarrow> thrown + ToolResponse" where
  "formatResponse D data format entityType =
     (if format = FormatMarkdown
      then bindE (formatAsMarkdown D data entityType) (\<lambda>t. Inr (textResponse t))
      else Inr (textResponse (stringify data)))"

text \<open>
  The page object \<open>convertPaginatedResponse\<close> returns, as the formatter sees it; a
  property whose value is \<open>undefined\<close> reads as a missing one.
\<close>

definition pageJson :: "json PaginatedResponse \<Rightarrow> json" where
  "pageJson p =
     JObj ([(''items'', JArr (items p)), (''count'', JNum (int (count p)))] @
           (case total p of None \<Rightarrow> [] | Some t \<Rightarrow> [(''total'', JNum t)]) @
           [(''hasMore'', JBool (hasMore p))] @
           (case nextCursor p of None \<Rightarrow> [] | Some c \<Rightarrow> [(''nextCursor'', JStr c)]))"

section \<open>Tool handlers (tools/*.ts)\<close>

text \<open>
  Every handler has the shape
  \<^verbatim>\<open>try { const result = await client.op(...); return respond(result); }
  catch (error) { return formatError(error); }\<close>
  where \<open>call\<close> is the outcome of the awaited client call and \<open>respond\<close> builds the
  response inside the \<open>try\<close> block.
\<close>

definition toolHandler :: "errorsModule \<Rightarrow> thrown + 'r \<Rightarrow> ('r \<Rightarrow> thrown + ToolResponse) \<Rightarrow> ToolResponse" where
  "toolHandler E call respond =
     (case call of
        Inl error \<Rightarrow> formatError E error
      | Inr result \<Rightarrow> (case respond result of Inl error \<Rightarrow> formatError E error | Inr r \<Rightarrow> r))"

text \<open>\<open>bitbucket_list_workspaces\<close>: \<open>formatResponse(result, format, 'workspaces')\<close>.\<close>

definition listWorkspacesTool ::
  "errorsModule \<Rightarrow> (json \<Rightarrow> string) \<Rightarrow> thrown + json \<Rightarrow> ResponseFormat \<Rightarrow> ToolResponse" where
  "listWorkspacesTool E D call format =
     toolHandler E call (\<lambda>result. formatResponse D result format ''workspaces'')"

text \<open>\<open>bitbucket_list_pull_requests\<close>: \<open>formatResponse(result, format, 'pullrequests')\<close>.\<close>

definition listPullRequestsTool ::
  "errorsModule \<Rightarrow> (json \<Rightarrow> string) \<Rightarrow> thrown + json \<Rightarrow> ResponseFormat \<Rightarrow> ToolResponse" where
  "listPullRequestsTool E D call format =
     toolHandler E call (\<lambda>result. formatResponse D result format ''pullrequests'')"

text \<open>\<open>bitbucket_get_diff\<close>: the text the client returns is the response.\<close>

definition getDiffTool :: "errorsModule \<Rightarrow> thrown + string \<Rightarrow> ToolResponse" where
  "getDiffTool E call = toolHandler E call (\<lambda>result. Inr (textResponse result))"

section \<open>Entities as the type declarations give them (types/entities.ts)\<close>

text \<open>
  The formatter is handed values cast to \<open>Commit[]\<close>, \<open>Comment[]\<close> and \<open>PullRequest[]\<close>.
  The predicates say when a JSON value has the shape of the interface, for the fields
  the tables read: an optional string field is absent or a string, \<open>Account\<close> has the
  optional strings \<open>username\<close> and \<open>display_name\<close>, \<open>Author\<close> has an optional string \<open>raw\<close>
  and an optional \<open>user\<close>, a pull request's \<open>source\<close> and \<open>destination\<close> have a
  \<open>branch\<close> with a string \<open>name\<close>.
\<close>

definition optString :: "json option \<Rightarrow> bool" where
  "optString v = (case v of None \<Rightarrow> True | Some (JStr s) \<Rightarrow> True | _ \<Rightarrow> False)"

definition isString :: "json option \<Rightarrow> bool" where
  "isString v = (case v of Some (JStr s) \<Rightarrow> True | _ \<Rightarrow> False)"

definition isNumber :: "json option \<Rightarrow> bool" where
  "isNumber v = (case v of Some (JNum n) \<Rightarrow> True | _ \<Rightarrow> False)"

definition isAccount :: "json option \<Rightarrow> bool" where
  "isAccount u =
     (case u of
        None \<Rightarrow> True
      | Some (JObj ms) \<Rightarrow> optString (map_of ms ''username'') \<and> optString (map_of ms ''display_name'')
      | _ \<Rightarrow> False)"

definition isAuthor :: "json option \<Rightarrow> bool" where
  "isAuthor a =
     (case a of
        None \<Rightarrow> True
      | Some (JObj ms) \<Rightarrow> optString (map_of ms ''raw'') \<and> isAccount (map_of ms ''user'')
      | _ \<Rightarrow> False)"

definition isContent :: "json option \<Rightarrow> bool" where
  "isContent c =
     (case c of None \<Rightarrow> True | Some (JObj ms) \<Rightarrow> optString (map_of ms ''raw'') | _ \<Rightarrow> False)"

definition isEndpoint :: "json option \<Rightarrow> bool" where
  "isEndpoint e =
     (case e of
        Some (JObj ms) \<Rightarrow>
          (case map_of ms ''branch'' of Some (JObj bs) \<Rightarrow> isString (map_of bs ''name'') | _ \<Rightarrow> False)
      | _ \<Rightarrow> False)"

definition isCommit :: "json \<Rightarrow> bool" where
  "isCommit c =
     (case c of
        JObj kvs \<Rightarrow> isString (map_of kvs ''hash'') \<and> optString (map_of kvs ''message'') \<and>
                    isAuthor (map_of kvs ''author'') \<and> optString (map_of kvs ''date'')
      | _ \<Rightarrow> False)"

definition isComment :: "json \<Rightarrow> bool" where
  "isComment c =
     (case c of
        JObj kvs \<Rightarrow> isNumber (map_of kvs ''id'') \<and> isContent (map_of kvs ''content'') \<and>
                    isAccount (map_of kvs ''user'') \<and> optString (map_of kvs ''created_on'')
      | _ \<Rightarrow> False)"

definition isPullRequest :: "json \<Rightarrow> bool" where
  "isPullRequest pr =
     (case pr of
        JObj kvs \<Rightarrow> isNumber (map_of kvs ''id'') \<and> isString (map_of kvs ''title'') \<and>
                    isString (map_of kvs ''state'') \<and> isAccount (map_of kvs ''author'') \<and>
                    isEndpoint (map_of kvs ''source'') \<and> isEndpoint (map_of kvs ''destination'')
      | _ \<Rightarrow> False)"

section \<open>The cells the specification describes\<close>

text \<open>
  The rendering rules in the specification's words, to compare the tables with:
  \<open>stringField v k\<close> is the string in field \<open>k\<close> of an optional object (empty when the
  object, the field or the string is missing), \<open>firstLine\<close> is the text before the first
  line break.
\<close>

definition stringField :: "json option \<Rightarrow> string \<Rightarrow> string" where
  "stringField v k =
     (case v of
        Some (JObj ms) \<Rightarrow> (case map_of ms k of Some (JStr s) \<Rightarrow> s | _ \<Rightarrow> [])
      | _ \<Rightarrow> [])"

definition objectField :: "json option \<Rightarrow> string \<Rightarrow> json option" where
  "objectField v k = (case v of Some (JObj ms) \<Rightarrow> map_of ms k | _ \<Rightarrow> None)"

definition firstLine :: "string \<Rightarrow> string" where
  "firstLine s = takeWhile (\<lambda>c. c \<noteq> NL) s"

text \<open>Display name first, then username, else a dash.\<close>

definition displayNameFirst :: "json option \<Rightarrow> string" where
  "displayNameFirst u =
     (if stringField u ''display_name'' \<noteq> [] then stringField u ''display_name''
      else if stringField u ''username'' \<noteq> [] then stringField u ''username''
      else ''-'')"

text \<open>Raw author string first, then the user's display name, else a dash.\<close>

definition rawFirst :: "json option \<Rightarrow> string" where
  "rawFirst a =
     (if stringField a ''raw'' \<noteq> [] then stringField a ''raw''
      else if stringField (objectField a ''user'') ''display_name'' \<noteq> []
           then stringField (objectField a ''user'') ''display_name''
      else ''-'')"

text \<open>A free-text cell: a dash for no text; first line only, at most 50 characters.\<close>

definition firstLineCell :: "string \<Rightarrow> string" where
  "firstLineCell s = (if s = [] then ''-'' else take 50 (firstLine s))"

definition expectedCommitRow :: "(json \<Rightarrow> string) \<Rightarrow> json \<Rightarrow> string" where
  "expectedCommitRow D c =
     rowOf [take 7 (stringField (Some c) ''hash''),
            firstLineCell (stringField (Some c) ''message''),
            rawFirst (objectField (Some c) ''author''),
            dateCell D (objectField (Some c) ''date'')]"

definition numberField :: "json option \<Rightarrow> string \<Rightarrow> string" where
  "numberField v k =
     (case v of
        Some (JObj ms) \<Rightarrow> (case map_of ms k of Some (JNum n) \<Rightarrow> numToString n | _ \<Rightarrow> [])
      | _ \<Rightarrow> [])"

definition expectedCommentRow :: "(json \<Rightarrow> string) \<Rightarrow> json \<Rightarrow> string" where
  "expectedCommentRow D c =
     rowOf [numberField (Some c) ''id'',
            displayNameFirst (objectField (Some c) ''user''),
            firstLineCell (stringField (objectField (Some c) ''content'') ''raw''),
            dateCell D (objectField (Some c) ''created_on'')]"

text \<open>The five cells of a pull request: ID, Title, State, Author, Source -> Dest.\<close>

definition expectedPullRequestRow :: "json \<Rightarrow> string" where
  "expectedPullRequestRow pr =
     ''| #'' @ numberField (Some pr) ''id'' @ '' | '' @ stringField (Some pr) ''title'' @ '' | '' @
     stringField (Some pr) ''state'' @ '' | '' @ displayNameFirst (objectField (Some pr) ''author'') @
     '' | '' @ stringField (objectField (objectField (Some pr) ''source'') ''branch'') ''name'' @ '' -> '' @
     stringField (objectField (objectField (Some pr) ''destination'') ''branch'') ''name'' @ '' |''"

text \<open>
  The lines above the table of a page: the heading, an empty line, the counts, the
  notice of further pages, an empty line.
\<close>

definition pageLines :: "string \<Rightarrow> json PaginatedResponse \<Rightarrow> string list" where
  "pageLines entityType p =
     [''## '' @ capitalize entityType, [],
      (case total p of
         None \<Rightarrow> ''**Showing:** '' @ numToString (int (count p))
       | Some t \<Rightarrow> ''**Total:** '' @ numToString t @ '' | **Showing:** '' @ numToString (int (count p)))] @
     (if hasMore p then [''**More available:** Yes''] else []) @ [[]]"

text \<open>The first 50 characters of a comment's body hold no line break.\<close>

definition bodyStartsOnOneLine :: "json \<Rightarrow> bool" where
  "bodyStartsOnOneLine c = (NL \<notin> set (take 50 (stringField (objectField (Some c) ''content'') ''raw'')))"

section \<open>Argument schemas of the list tools (tools/*.ts)\<close>

text \<open>
  Every list tool declares \<open>pagelen: z.number().int().min(1).max(100).default(20)\<close>,
  \<open>page: z.number().int().min(1).optional()\<close> and, where it has them,
  \<open>q: z.string().optional()\<close> and \<open>sort: z.string().optional()\<close>. The schema is checked
  before the handler runs: a missing page size becomes 20, a page size or page outside
  the bounds is a validation error (the issue's code is the error value here), and
  nothing is changed to fit. The handler hands the validated arguments to the client as
  \<open>{ pagelen, page, q, sort }\<close>.
\<close>

definition pagelenSchema :: "int option \<Rightarrow> string + int" where
  "pagelenSchema arg =
     (case arg of
        None \<Rightarrow> Inr 20
      | Some n \<Rightarrow> if n < 1 then Inl ''too_small'' else if 100 < n then Inl ''too_big'' else Inr n)"

definition pageSchema :: "int option \<Rightarrow> string + int option" where
  "pageSchema arg =
     (case arg of None \<Rightarrow> Inr None | Some n \<Rightarrow> if n < 1 then Inl ''too_small'' else Inr (Some n))"

definition listToolParams ::
  "int option \<Rightarrow> int option \<Rightarrow> string option \<Rightarrow> string option \<Rightarrow> string + PaginationParams" where
  "listToolParams pagelenArg pageArg qArg sortArg =
     (case pagelenSchema pagelenArg of
        Inl issue \<Rightarrow> Inl issue
      | Inr pl \<Rightarrow>
          (case pageSchema pageArg of
             Inl issue \<Rightarrow> Inl issue
           | Inr pg \<Rightarrow> Inr \<lparr> pagelen = Some pl, page = pg, q = qArg, sortBy = sortArg \<rparr>))"

text \<open>The query parts after the page size: page, filter and sort.\<close>

definition otherParts :: "int option \<Rightarrow> string option \<Rightarrow> string option \<Rightarrow> string list" where
  "otherParts pg qq ss = numPart ''page'' pg @ strPart ''q'' qq @ strPart ''sort'' ss"

section \<open>What the markdown formatter needs of its input\<close>

text \<open>
  Printing a value throws only for an object with a property named \<open>toString\<close>;
  \<open>noToString\<close> says that no object inside a value has one.
\<close>

fun noToString :: "json \<Rightarrow> bool"
  and noToStringElems :: "json list \<Rightarrow> bool"
  and noToStringMembers :: "(string \<times> json) list \<Rightarrow> bool" where
  "noToString JNull = True"
| "noToString (JBool b) = True"
| "noToString (JNum n) = True"
| "noToString (JStr s) = True"
| "noToString (JArr xs) = noToStringElems xs"
| "noToString (JObj kvs) = (''toString'' \<notin> set (map fst kvs) \<and> noToStringMembers kvs)"
| "noToStringElems [] = True"
| "noToStringElems (x # xs) = (noToString x \<and> noToStringElems xs)"
| "noToStringMembers [] = True"
| "noToStringMembers ((k, v) # kvs) = (noToString v \<and> noToStringMembers kvs)"

definition printableOpt :: "json option \<Rightarrow> bool" where
  "printableOpt v = (case v of None \<Rightarrow> True | Some j \<Rightarrow> noToString j)"

text \<open>
  The fields a table reads without a guard: a string where a string method is called
  (or nothing, where a default stands in), an array where \<open>join\<close> is called, an object
  where a property is read.
\<close>

definition stringOrFalsy :: "json option \<Rightarrow> bool" where
  "stringOrFalsy v = (isString v \<or> \<not> truthy v)"

definition arrayOrNullish :: "json option \<Rightarrow> bool" where
  "arrayOrNullish v =
     (case v of None \<Rightarrow> True | Some JNull \<Rightarrow> True | Some (JArr xs) \<Rightarrow> True | _ \<Rightarrow> False)"

definition hasBranch :: "json option \<Rightarrow> bool" where
  "hasBranch e =
     (case e of
        None \<Rightarrow> False
      | Some v \<Rightarrow> v \<noteq> JNull \<and> (case own v ''branch'' of None \<Rightarrow> False | Some b \<Rightarrow> b \<noteq> JNull))"

definition knownKind :: "string \<Rightarrow> bool" where
  "knownKind entityType =
     (entityType \<in> set [''workspaces'', ''repositories'', ''branches'', ''commits'', ''pullrequests'',
                          ''pull_requests'', ''issues'', ''pipelines'', ''webhooks'', ''comments''])"

text \<open>
  An item a table of the given kind can render: not \<open>null\<close>, printable, and with the
  fields of its kind that are read unguarded.
\<close>

definition rowReads :: "string \<Rightarrow> json \<Rightarrow> bool" where
  "rowReads entityType item =
     (item \<noteq> JNull \<and> noToString item \<and>
      (if entityType = ''branches'' then stringOrFalsy (dotOpt (own item ''target'') ''hash'')
       else if entityType = ''commits''
         then isString (own item ''hash'') \<and> stringOrFalsy (own item ''message'')
       else if entityType = ''pullrequests'' \<or> entityType = ''pull_requests''
         then hasBranch (own item ''source'') \<and> hasBranch (own item ''destination'')
       else if entityType = ''webhooks'' then arrayOrNullish (own item ''events'')
       else if entityType = ''comments'' then stringOrFalsy (dotOpt (own item ''content'') ''raw'')
       else True))"

text \<open>
  The items a generic table can render: the first is not \<open>null\<close>, and either it has
  no keys (a number, a boolean, an empty object, array or string), so that no item is
  read, or no item is \<open>null\<close> or unprintable.
\<close>

definition genericReads :: "json list \<Rightarrow> bool" where
  "genericReads its =
     (case its of
        [] \<Rightarrow> True
      | first # rest \<Rightarrow>
          first \<noteq> JNull \<and>
          (objectKeys first = Inr [] \<or> list_all (\<lambda>item. item \<noteq> JNull \<and> noToString item) its))"

text \<open>
  The inputs the markdown formatter renders: anything that is no collection, and a
  page or an array all of whose items can be rendered by the table chosen for it.
\<close>

definition renderable :: "json \<Rightarrow> string \<Rightarrow> bool" where
  "renderable data entityType =
     (case own data ''items'' of
        Some (JArr its) \<Rightarrow>
          printableOpt (own data ''total'') \<and> printableOpt (own data ''count'') \<and>
          (if knownKind entityType then list_all (rowReads entityType) its else genericReads its)
      | _ \<Rightarrow> (case data of JArr xs \<Rightarrow> genericReads xs | _ \<Rightarrow> True))"

section \<open>Sample parameters for concrete evaluations\<close>

text \<open>
  A date renderer (the day part of an ISO timestamp) and an errors module (the three
  client errors are API errors, a rate limit is retryable, the log record holds the
  message), to evaluate the functions above on concrete inputs.
\<close>

definition sampleDate :: "json \<Rightarrow> string" where
  "sampleDate v = (case v of JStr s \<Rightarrow> take 10 s | _ \<Rightarrow> ''Invalid Date'')"

definition sampleErrors :: errorsModule where
  "sampleErrors =
     \<lparr> instanceofBitbucketApiError =
         (\<lambda>e. case e of JsError n m \<Rightarrow> False | PlainValue s \<Rightarrow> False | _ \<Rightarrow> True),
       retryableOf = (\<lambda>e. case e of RateLimitError m r \<Rightarrow> True | _ \<Rightarrow> False),
       formatErrorForLogging = (\<lambda>e. Some (JObj [(''message'', JStr (messageOf e))])) \<rparr>"

section \<open>Pagination: normalisation and query building\<close>

lemma natToString_150: "natToString 150 = ''150''"
  by (simp add: natToString.simps digitChar_def)

lemma natToString_100: "natToString 100 = ''100''"
  by (simp add: natToString.simps digitChar_def)

lemma numToString_150: "numToString 150 = ''150''"
  by (simp add: numToString_def natToString_150)

lemma numToString_100: "numToString 100 = ''100''"
  by (simp add: numToString_def natToString_100)

text \<open>
  C1 (as amended). \<open>convertPaginatedResponse\<close> returns the record whose items are the
  envelope's values unchanged, whose count is their number, whose total is the
  envelope's size (absent when omitted) and whose cursor is the envelope's next link;
  \<open>hasMore\<close> is \<open>!!next\<close>, true exactly when the next link is present and is not the
  empty string. So the count equals the number of items for every envelope, and
  \<open>hasMore\<close> is false for every envelope without a next link.
\<close>

theorem convertPaginatedResponse_record:
  "convertPaginatedResponse r =
     \<lparr> items = values_b r, count = length (values_b r), total = size_b r,
       hasMore = (next_b r \<noteq> None \<and> next_b r \<noteq> Some []), nextCursor = next_b r \<rparr>
   \<and> count (convertPaginatedResponse r) = length (items (convertPaginatedResponse r))
   \<and> hasMore (convertPaginatedResponse (r\<lparr>next_b := None\<rparr>)) = False"
  by (cases "next_b r") (simp_all add: convertPaginatedResponse_def truthyString_def)

text \<open>
  C1 as stated fails where the next link is present and empty: the link is there, and
  \<open>hasMore\<close> is false.
\<close>

theorem convertPaginatedResponse_empty_next_counterexample:
  "next_b \<lparr> size_b = None, page_b = None, pagelen_b = None, next_b = Some [],
            previous_b = None, values_b = [JNull] \<rparr> \<noteq> None
   \<and> hasMore (convertPaginatedResponse
        \<lparr> size_b = None, page_b = None, pagelen_b = None, next_b = Some [],
          previous_b = None, values_b = [JNull] \<rparr>) = False"
  by (simp add: convertPaginatedResponse_def truthyString_def)

lemma join_cons: "join sep (x # xs) = x @ concat (map ((@) sep) xs)"
  by (induction xs arbitrary: x) simp_all

lemma query_with_pagelen:
  "k \<noteq> 0 \<Longrightarrow>
   buildPaginationQuery (Some \<lparr> pagelen = Some k, page = pg, q = qq, sortBy = ss \<rparr>) =
     ''?pagelen='' @ numToString k @ concat (map ((@) ''&'') (otherParts pg qq ss))"
  by (simp add: buildPaginationQuery_def numPart_def otherParts_def join_cons Let_def)

lemma query_without_pagelen:
  "buildPaginationQuery (Some \<lparr> pagelen = None, page = pg, q = qq, sortBy = ss \<rparr>) =
     (if otherParts pg qq ss = [] then [] else ''?'' @ join ''&'' (otherParts pg qq ss))"
  by (simp add: buildPaginationQuery_def numPart_def otherParts_def Let_def)

lemma query_zero_pagelen:
  "buildPaginationQuery (Some \<lparr> pagelen = Some 0, page = pg, q = qq, sortBy = ss \<rparr>) =
   buildPaginationQuery (Some \<lparr> pagelen = None, page = pg, q = qq, sortBy = ss \<rparr>)"
  by (simp add: buildPaginationQuery_def numPart_def Let_def)

text \<open>
  C2 (as amended). Nothing clamps the page size before the query is built.
  \<open>buildPaginationQuery\<close> writes the page size it is given, unchanged, as the first part
  of the query, whatever the other parameters are, and writes no \<open>pagelen\<close> part when
  the page size is absent or 0. Out-of-range sizes are kept out by the argument schema
  of the list tools, which rejects them (150 is refused, not turned into 100): for
  every tool call the schema accepts, the page size in the parameters handed to the
  client, and so in the query, is the requested one (20 when none was given) and lies
  in [1, 100]. \<open>normalizePaginationParams\<close>, which nothing calls, yields the smaller of
  the requested size (20 when absent or 0) and the maximum (default 100).
\<close>

theorem page_size_bounded_by_schema:
  assumes "listToolParams pagelenArg pageArg qArg sortArg = Inr params"
  shows "(\<exists>n. pagelen params = Some n \<and> 1 \<le> n \<and> n \<le> 100
              \<and> n = (case pagelenArg of None \<Rightarrow> 20 | Some a \<Rightarrow> a)
              \<and> buildPaginationQuery (Some params) =
                  ''?pagelen='' @ numToString n @ concat (map ((@) ''&'') (otherParts (page params) qArg sortArg)))
         \<and> buildPaginationQuery (Some \<lparr> pagelen = Some k, page = pg, q = qq, sortBy = ss \<rparr>) =
             (if k = 0 then buildPaginationQuery (Some \<lparr> pagelen = None, page = pg, q = qq, sortBy = ss \<rparr>)
              else ''?pagelen='' @ numToString k @ concat (map ((@) ''&'') (otherParts pg qq ss)))
         \<and> buildPaginationQuery (Some \<lparr> pagelen = None, page = pg, q = qq, sortBy = ss \<rparr>) =
             (if otherParts pg qq ss = [] then [] else ''?'' @ join ''&'' (otherParts pg qq ss))
         \<and> buildPaginationQuery None = []
         \<and> pagelenSchema (Some 150) = Inl ''too_big'' \<and> pagelenSchema (Some 0) = Inl ''too_small''
         \<and> pagelen (normalizePaginationParams p m) =
             Some (min (pagelenOrDefault p) (case m of None \<Rightarrow> 100 | Some x \<Rightarrow> x))"
proof -
  from assms obtain n pg' where n: "pagelenSchema pagelenArg = Inr n"
    and params: "params = \<lparr> pagelen = Some n, page = pg', q = qArg, sortBy = sortArg \<rparr>"
    by (auto simp add: listToolParams_def split: sum.splits)
  from n have bounds: "1 \<le> n \<and> n \<le> 100 \<and> n = (case pagelenArg of None \<Rightarrow> 20 | Some a \<Rightarrow> a)"
    by (auto simp add: pagelenSchema_def split: option.splits if_splits)
  then have "n \<noteq> 0" by simp
  then have q1: "buildPaginationQuery (Some params) =
      ''?pagelen='' @ numToString n @ concat (map ((@) ''&'') (otherParts (page params) qArg sortArg))"
    by (simp add: params query_with_pagelen)
  have first: "\<exists>n. pagelen params = Some n \<and> 1 \<le> n \<and> n \<le> 100
              \<and> n = (case pagelenArg of None \<Rightarrow> 20 | Some a \<Rightarrow> a)
              \<and> buildPaginationQuery (Some params) =
                  ''?pagelen='' @ numToString n @ concat (map ((@) ''&'') (otherParts (page params) qArg sortArg))"
    using bounds q1 params by simp
  have second: "buildPaginationQuery (Some \<lparr> pagelen = Some k, page = pg, q = qq, sortBy = ss \<rparr>) =
             (if k = 0 then buildPaginationQuery (Some \<lparr> pagelen = None, page = pg, q = qq, sortBy = ss \<rparr>)
              else ''?pagelen='' @ numToString k @ concat (map ((@) ''&'') (otherParts pg qq ss)))"
    using query_with_pagelen [of k pg qq ss] query_zero_pagelen [of pg qq ss] by (cases "k = 0") simp_all
  have rest: "buildPaginationQuery None = []
         \<and> pagelenSchema (Some 150) = Inl ''too_big'' \<and> pagelenSchema (Some 0) = Inl ''too_small''
         \<and> pagelen (normalizePaginationParams p m) =
             Some (min (pagelenOrDefault p) (case m of None \<Rightarrow> 100 | Some x \<Rightarrow> x))"
    by (cases m)
      (simp_all add: buildPaginationQuery_def pagelenSchema_def normalizePaginationParams_def
        PAGINATION_DEFAULTS_maxPagelen_def)
  show ?thesis
    using first second query_without_pagelen [of pg qq ss] rest by blast
qed

theorem page_size_bounded_by_schema_witness:
  "listToolParams (Some 50) (Some 2) None (Some ''-updated_on'') =
     Inr \<lparr> pagelen = Some 50, page = Some 2, q = None, sortBy = Some ''-updated_on'' \<rparr>
   \<and> buildPaginationQuery (Some \<lparr> pagelen = Some 50, page = Some 2, q = None, sortBy = Some ''-updated_on'' \<rparr>) =
       ''?pagelen=50&page=2&sort=-updated_on''"
proof -
  have h: "listToolParams (Some 50) (Some 2) None (Some ''-updated_on'') =
     Inr \<lparr> pagelen = Some 50, page = Some 2, q = None, sortBy = Some ''-updated_on'' \<rparr>"
    by code_simp
  have n50: "numToString 50 = ''50''"
    by code_simp
  have parts: "concat (map ((@) ''&'') (otherParts (Some 2) None (Some ''-updated_on''))) =
               ''&page=2&sort=-updated_on''"
    by code_simp
  from page_size_bounded_by_schema [OF h]
  have "buildPaginationQuery (Some \<lparr> pagelen = Some 50, page = Some 2, q = None, sortBy = Some ''-updated_on'' \<rparr>) =
        ''?pagelen='' @ numToString 50 @ concat (map ((@) ''&'') (otherParts (Some 2) None (Some ''-updated_on'')))"
    by auto
  then show ?thesis
    unfolding n50 parts using h by simp
qed

text \<open>
  C2 as stated fails: the query built for page size 150 carries 150, not the clamped
  100.
\<close>

theorem buildPaginationQuery_unclamped_counterexample:
  "buildPaginationQuery (Some \<lparr> pagelen = Some 150, page = None, q = None, sortBy = None \<rparr>) = ''?pagelen=150''
   \<and> \<not> includesStr (buildPaginationQuery (Some \<lparr> pagelen = Some 150, page = None, q = None, sortBy = None \<rparr>))
          ''pagelen=100''"
  by (simp add: buildPaginationQuery_def numPart_def strPart_def numToString_150)

section \<open>Credentials and authentication\<close>

text \<open>
  C8 (as amended). Constructing a client never fails: \<open>createBitbucketClient\<close> stores
  whatever credentials it is given. With credentials that hold neither an access token
  nor a username together with an app password, every request of that client fails
  with the authentication error "No credentials provided ..." when it is made, before
  anything is fetched; such credentials are rejected earlier, by \<open>validateCredentials\<close>
  at the worker's MCP endpoint, which then creates no client.
\<close>

theorem missing_credentials_fail_per_call:
  assumes "\<not> truthyString (accessToken creds)"
    and "\<not> (truthyString (username creds) \<and> truthyString (appPassword creds))"
  shows "credentials (createBitbucketClient creds) = creds
         \<and> request (createBitbucketClient creds) fetch endpoint options =
             Inl (AuthenticationError NO_CREDENTIALS_MESSAGE)
         \<and> requestRaw (createBitbucketClient creds) fetch endpoint options =
             Inl (AuthenticationError NO_CREDENTIALS_MESSAGE)
         \<and> validateCredentials creds = Inl (JsError ''Error'' MISSING_CREDENTIALS_MESSAGE)
         \<and> (\<forall>hget. parseTenantCredentials hget = creds \<longrightarrow>
               mcpEndpoint hget = Unauthorized MISSING_CREDENTIALS_MESSAGE)"
  using assms
  by (auto simp add: createBitbucketClient_def newBitbucketClientImpl_def getAuthHeaders_def
        request_def requestRaw_def validateCredentials_def mcpEndpoint_def Let_def)

theorem missing_credentials_fail_per_call_witness:
  "request (createBitbucketClient \<lparr> username = Some ''bob'', appPassword = None, accessToken = None, baseUrl = None \<rparr>)
     (\<lambda>url init. Inr \<lparr> status = 200, headersGet = Map.empty, bodyText = ''{}'', bodyJson = Some (JObj []) \<rparr>)
     ''/user'' \<lparr> reqMethod = None, reqBody = None, reqHeaders = [] \<rparr> =
   Inl (AuthenticationError NO_CREDENTIALS_MESSAGE)
   \<and> mcpEndpoint [''X-Bitbucket-Username'' \<mapsto> ''bob''] = Unauthorized MISSING_CREDENTIALS_MESSAGE"
  using missing_credentials_fail_per_call
    [of "\<lparr> username = Some ''bob'', appPassword = None, accessToken = None, baseUrl = None \<rparr>"
        "\<lambda>url init. Inr \<lparr> status = 200, headersGet = Map.empty, bodyText = ''{}'', bodyJson = Some (JObj []) \<rparr>"
        "''/user''" "\<lparr> reqMethod = None, reqBody = None, reqHeaders = [] \<rparr>"]
  by (simp add: truthyString_def parseTenantCredentials_def headerOrUndefined_def)

text \<open>
  C8 as stated fails: with no credentials at all the construction returns a client, and
  the authentication error is raised by \<open>getAuthHeaders\<close>, that is by each call.
\<close>

theorem createBitbucketClient_no_credentials_counterexample:
  "createBitbucketClient \<lparr> username = None, appPassword = None, accessToken = None, baseUrl = None \<rparr> =
     \<lparr> credentials = \<lparr> username = None, appPassword = None, accessToken = None, baseUrl = None \<rparr>,
       clientBaseUrl = ''https://api.bitbucket.org/2.0'' \<rparr>
   \<and> getAuthHeaders (createBitbucketClient
        \<lparr> username = None, appPassword = None, accessToken = None, baseUrl = None \<rparr>) =
       Inl (AuthenticationError NO_CREDENTIALS_MESSAGE)"
  by (simp add: createBitbucketClient_def newBitbucketClientImpl_def API_BASE_URL_def
        getAuthHeaders_def truthyString_def)



section \<open>Status handling in the client\<close>

lemma handleResponse_auth:
  "status response = 401 \<or> status response = 403 \<Longrightarrow>
   handleResponse response = Inl (AuthenticationError AUTH_FAILED_MESSAGE)"
  by (auto simp add: handleResponse_def)

lemma btoa_bob: "btoa ''bob:secret'' = ''Ym9iOnNlY3JldA==''"
  by code_simp

text \<open>
  Requests made through \<open>request\<close>. Two of them, with any credentials, that are each
  answered with status 401 or 403: both raise the authentication error with the one
  fixed text, and the error envelopes the tool handlers return are equal (and flagged as
  errors). The text is a constant of the code, so no credential value reaches it.
\<close>

theorem auth_failure_independent_of_credentials:
  assumes "status r1 = 401 \<or> status r1 = 403" and "status r2 = 401 \<or> status r2 = 403"
    and "getAuthHeaders c1 = Inr h1" and "getAuthHeaders c2 = Inr h2"
    and "fetch1 (clientBaseUrl c1 @ e1) (o1\<lparr>reqHeaders := spread h1 (reqHeaders o1)\<rparr>) = Inr r1"
    and "fetch2 (clientBaseUrl c2 @ e2) (o2\<lparr>reqHeaders := spread h2 (reqHeaders o2)\<rparr>) = Inr r2"
  shows "request c1 fetch1 e1 o1 =
           Inl (AuthenticationError ''Authentication failed. Check your Bitbucket credentials.'')
         \<and> request c2 fetch2 e2 o2 = request c1 fetch1 e1 o1
         \<and> toolHandler E (request c1 fetch1 e1 o1) respond1 =
             formatError E (AuthenticationError ''Authentication failed. Check your Bitbucket credentials.'')
         \<and> toolHandler E (request c2 fetch2 e2 o2) respond2 = toolHandler E (request c1 fetch1 e1 o1) respond1
         \<and> isError (toolHandler E (request c1 fetch1 e1 o1) respond1) = Some True"
proof -
  have a: "request c1 fetch1 e1 o1 = Inl (AuthenticationError AUTH_FAILED_MESSAGE)"
    using assms(1,3,5) by (simp add: request_def handleResponse_auth)
  have b: "request c2 fetch2 e2 o2 = Inl (AuthenticationError AUTH_FAILED_MESSAGE)"
    using assms(2,4,6) by (simp add: request_def handleResponse_auth)
  have m: "AUTH_FAILED_MESSAGE = ''Authentication failed. Check your Bitbucket credentials.''"
    by (simp add: AUTH_FAILED_MESSAGE_def)
  show ?thesis
    using a b unfolding m by (simp add: toolHandler_def formatError_def Let_def)
qed

theorem auth_failure_independent_of_credentials_witness:
  "toolHandler sampleErrors
     (request (createBitbucketClient \<lparr> username = None, appPassword = None, accessToken = Some ''tokenA'', baseUrl = None \<rparr>)
        (\<lambda>url init. Inr \<lparr> status = 401, headersGet = Map.empty, bodyText = [], bodyJson = None \<rparr>)
        ''/user'' \<lparr> reqMethod = None, reqBody = None, reqHeaders = [] \<rparr>)
     (\<lambda>result. Inr (textResponse ''ok'')) =
   toolHandler sampleErrors
     (request (createBitbucketClient \<lparr> username = Some ''bob'', appPassword = Some ''secret'', accessToken = None, baseUrl = None \<rparr>)
        (\<lambda>url init. Inr \<lparr> status = 403, headersGet = Map.empty, bodyText = [], bodyJson = None \<rparr>)
        ''/workspaces'' \<lparr> reqMethod = None, reqBody = None, reqHeaders = [] \<rparr>)
     (\<lambda>result. Inr (textResponse ''ok''))"
  using auth_failure_independent_of_credentials
    [of "\<lparr> status = 403, headersGet = Map.empty, bodyText = [], bodyJson = None \<rparr>"
        "\<lparr> status = 401, headersGet = Map.empty, bodyText = [], bodyJson = None \<rparr>"
        "createBitbucketClient \<lparr> username = Some ''bob'', appPassword = Some ''secret'', accessToken = None, baseUrl = None \<rparr>"
        "[(''Authorization'', ''Basic Ym9iOnNlY3JldA==''), (''Content-Type'', ''application/json'')]"
        "createBitbucketClient \<lparr> username = None, appPassword = None, accessToken = Some ''tokenA'', baseUrl = None \<rparr>"
        "[(''Authorization'', ''Bearer tokenA''), (''Content-Type'', ''application/json'')]"
        "\<lambda>url init. Inr \<lparr> status = 403, headersGet = Map.empty, bodyText = [], bodyJson = None \<rparr>"
        "''/workspaces''" "\<lparr> reqMethod = None, reqBody = None, reqHeaders = [] \<rparr>"
        "\<lambda>url init. Inr \<lparr> status = 401, headersGet = Map.empty, bodyText = [], bodyJson = None \<rparr>"
        "''/user''" "\<lparr> reqMethod = None, reqBody = None, reqHeaders = [] \<rparr>"
        sampleErrors "\<lambda>result. Inr (textResponse ''ok'')" "\<lambda>result. Inr (textResponse ''ok'')"]
  by (simp add: getAuthHeaders_def createBitbucketClient_def newBitbucketClientImpl_def
        truthyString_def strVal_def btoa_bob)

text \<open>
  The raw-text requests (\<open>requestRaw\<close>: diffs, file contents, step logs) have no branch
  for 401, 403 or 429: any status that is not ok raises the API error
  "API error: <status>".
\<close>

lemma requestRaw_not_ok:
  assumes "getAuthHeaders c = Inr h"
    and "fetch (clientBaseUrl c @ e)
           (opts\<lparr>reqHeaders := spread (spread h [(''Accept'', ''text/plain'')]) (reqHeaders opts)\<rparr>) = Inr r"
    and "\<not> ok r"
  shows "requestRaw c fetch e opts =
           Inl (BitbucketApiError (''API error: '' @ numToString (status r)) (status r))"
  using assms by (simp add: requestRaw_def)

lemma formatError_api_error_text:
  "\<exists>suffix details.
     content (formatError E (BitbucketApiError m st)) =
       [\<lparr> ctype = ''text'',
          ctext = stringify (JObj ((''error'', JStr (''Error: '' @ m @ suffix)) # details)) \<rparr>]
     \<and> (suffix = [] \<or> suffix = '' (retryable)'')"
proof -
  let ?e = "BitbucketApiError m st"
  let ?suffix = "if instanceofBitbucketApiError E ?e \<and> retryableOf E ?e then '' (retryable)'' else []"
  let ?details = "case formatErrorForLogging E ?e of None \<Rightarrow> [] | Some d \<Rightarrow> [(''details'', d)]"
  have "content (formatError E ?e) =
       [\<lparr> ctype = ''text'',
          ctext = stringify (JObj ((''error'', JStr (''Error: '' @ m @ ?suffix)) # ?details)) \<rparr>]"
    by (simp add: formatError_def Let_def)
  moreover have "?suffix = [] \<or> ?suffix = '' (retryable)''"
    by simp
  ultimately show ?thesis
    by blast
qed

lemma formatError_auth_error_text:
  "\<exists>suffix details.
     content (formatError E (AuthenticationError m)) =
       [\<lparr> ctype = ''text'',
          ctext = stringify (JObj ((''error'', JStr (''Error: '' @ m @ suffix)) # details)) \<rparr>]
     \<and> (suffix = [] \<or> suffix = '' (retryable)'')"
proof -
  let ?e = "AuthenticationError m"
  let ?suffix = "if instanceofBitbucketApiError E ?e \<and> retryableOf E ?e then '' (retryable)'' else []"
  let ?details = "case formatErrorForLogging E ?e of None \<Rightarrow> [] | Some d \<Rightarrow> [(''details'', d)]"
  have "content (formatError E ?e) =
       [\<lparr> ctype = ''text'',
          ctext = stringify (JObj ((''error'', JStr (''Error: '' @ m @ ?suffix)) # ?details)) \<rparr>]"
    by (simp add: formatError_def Let_def)
  moreover have "?suffix = [] \<or> ?suffix = '' (retryable)''"
    by simp
  ultimately show ?thesis
    by blast
qed

text \<open>
  C9, where the code departs from it: a diff requested with valid-looking credentials
  and answered with status 403 (or 401). \<open>requestRaw\<close> raises the API error with the
  text "API error: 403" ("API error: 401"), which is what the tool's error envelope
  shows after "Error: ", where \<open>request\<close> on the same response raises the
  authentication error, whose envelope shows the fixed text.
\<close>

theorem raw_request_auth_status_text:
  "requestRaw (createBitbucketClient
        \<lparr> username = Some ''bob'', appPassword = Some ''secret'', accessToken = None, baseUrl = None \<rparr>)
     (\<lambda>url init. Inr \<lparr> status = 403, headersGet = Map.empty, bodyText = ''Forbidden'', bodyJson = None \<rparr>)
     ''/repositories/team/app/diff/main'' \<lparr> reqMethod = None, reqBody = None, reqHeaders = [] \<rparr> =
     Inl (BitbucketApiError ''API error: 403'' 403)
   \<and> requestRaw (createBitbucketClient
        \<lparr> username = Some ''bob'', appPassword = Some ''secret'', accessToken = None, baseUrl = None \<rparr>)
     (\<lambda>url init. Inr \<lparr> status = 401, headersGet = Map.empty, bodyText = ''Unauthorized'', bodyJson = None \<rparr>)
     ''/repositories/team/app/diff/main'' \<lparr> reqMethod = None, reqBody = None, reqHeaders = [] \<rparr> =
     Inl (BitbucketApiError ''API error: 401'' 401)
   \<and> request (createBitbucketClient
        \<lparr> username = Some ''bob'', appPassword = Some ''secret'', accessToken = None, baseUrl = None \<rparr>)
     (\<lambda>url init. Inr \<lparr> status = 403, headersGet = Map.empty, bodyText = ''Forbidden'', bodyJson = None \<rparr>)
     ''/repositories/team/app/diff/main'' \<lparr> reqMethod = None, reqBody = None, reqHeaders = [] \<rparr> =
     Inl (AuthenticationError ''Authentication failed. Check your Bitbucket credentials.'')
   \<and> getDiffTool E (Inl (BitbucketApiError ''API error: 403'' 403)) =
       formatError E (BitbucketApiError ''API error: 403'' 403)
   \<and> (\<exists>suffix details.
         content (formatError E (BitbucketApiError ''API error: 403'' 403)) =
           [\<lparr> ctype = ''text'',
              ctext = stringify (JObj ((''error'', JStr (''Error: API error: 403'' @ suffix)) # details)) \<rparr>]
         \<and> (suffix = [] \<or> suffix = '' (retryable)''))
   \<and> (\<exists>suffix details.
         content (formatError E
             (AuthenticationError ''Authentication failed. Check your Bitbucket credentials.'')) =
           [\<lparr> ctype = ''text'',
              ctext = stringify (JObj ((''error'',
                  JStr (''Error: Authentication failed. Check your Bitbucket credentials.'' @ suffix)) # details)) \<rparr>]
         \<and> (suffix = [] \<or> suffix = '' (retryable)''))"
proof -
  have a: "requestRaw (createBitbucketClient
        \<lparr> username = Some ''bob'', appPassword = Some ''secret'', accessToken = None, baseUrl = None \<rparr>)
     (\<lambda>url init. Inr \<lparr> status = 403, headersGet = Map.empty, bodyText = ''Forbidden'', bodyJson = None \<rparr>)
     ''/repositories/team/app/diff/main'' \<lparr> reqMethod = None, reqBody = None, reqHeaders = [] \<rparr> =
     Inl (BitbucketApiError ''API error: 403'' 403)"
    by code_simp
  have b: "requestRaw (createBitbucketClient
        \<lparr> username = Some ''bob'', appPassword = Some ''secret'', accessToken = None, baseUrl = None \<rparr>)
     (\<lambda>url init. Inr \<lparr> status = 401, headersGet = Map.empty, bodyText = ''Unauthorized'', bodyJson = None \<rparr>)
     ''/repositories/team/app/diff/main'' \<lparr> reqMethod = None, reqBody = None, reqHeaders = [] \<rparr> =
     Inl (BitbucketApiError ''API error: 401'' 401)"
    by code_simp
  have c: "request (createBitbucketClient
        \<lparr> username = Some ''bob'', appPassword = Some ''secret'', accessToken = None, baseUrl = None \<rparr>)
     (\<lambda>url init. Inr \<lparr> status = 403, headersGet = Map.empty, bodyText = ''Forbidden'', bodyJson = None \<rparr>)
     ''/repositories/team/app/diff/main'' \<lparr> reqMethod = None, reqBody = None, reqHeaders = [] \<rparr> =
     Inl (AuthenticationError ''Authentication failed. Check your Bitbucket credentials.'')"
    by code_simp
  have d: "getDiffTool E (Inl (BitbucketApiError ''API error: 403'' 403)) =
       formatError E (BitbucketApiError ''API error: 403'' 403)"
    by (simp add: getDiffTool_def toolHandler_def)
  show ?thesis
    using a b c d formatError_api_error_text [of E "''API error: 403''" 403]
      formatError_auth_error_text [of E "''Authentication failed. Check your Bitbucket credentials.''"]
    by simp
qed

text \<open>
  C5. A 429 response raises the rate-limit error; with \<open>Retry-After: 30\<close> it carries 30,
  without the header 60, and the handler's envelope is flagged as an error.
\<close>

lemma rate_limit_header_30:
  "handleResponse \<lparr> status = 429, headersGet = [''Retry-After'' \<mapsto> ''30''],
                     bodyText = [], bodyJson = None \<rparr> =
     Inl (RateLimitError ''Rate limit exceeded'' (Num 30))"
  by (simp add: handleResponse_def parseInt10_def signedDigits_def isSpace_def isDigit_def digitsValue_def)

lemma rate_limit_header_absent:
  "status response = 429 \<Longrightarrow> headersGet response ''Retry-After'' = None \<Longrightarrow>
   handleResponse response = Inl (RateLimitError ''Rate limit exceeded'' (Num 60))"
  by (simp add: handleResponse_def)

text \<open>
  C5, where the code departs from it: a \<open>Retry-After\<close> header that is present and is
  no number (here the HTTP date form of the header) is handed to \<open>Number.parseInt\<close>
  unchecked, and the error carries \<open>NaN\<close>, not the default 60.
\<close>

theorem rate_limit_http_date_header:
  "handleResponse \<lparr> status = 429, headersGet = [''Retry-After'' \<mapsto> ''Wed, 21 Oct 2015 07:28:00 GMT''],
                     bodyText = [], bodyJson = None \<rparr> =
     Inl (RateLimitError ''Rate limit exceeded'' NaN)"
  by (simp add: handleResponse_def parseInt10_def signedDigits_def isSpace_def isDigit_def)

section \<open>The error monad of the formatter\<close>

lemma bindE_Inl [simp]: "bindE (Inl e) f = Inl e"
  by (simp add: bindE_def)

lemma bindE_Inr [simp]: "bindE (Inr v) f = f v"
  by (simp add: bindE_def)

lemma mapE_all_Inr: "(\<And>x. x \<in> set xs \<Longrightarrow> f x = Inr (g x)) \<Longrightarrow> mapE f xs = Inr (map g xs)"
  by (induction xs) simp_all

lemma mapE_total: "(\<And>x. x \<in> set xs \<Longrightarrow> \<exists>y. f x = Inr y) \<Longrightarrow> \<exists>ys. mapE f xs = Inr ys"
proof (induction xs)
  case Nil
  then show ?case by simp
next
  case (Cons x xs)
  then obtain y ys where "f x = Inr y" and "mapE f xs = Inr ys"
    by (meson list.set_intros)
  then show ?case by simp
qed

lemma optString_cases: "optString v \<Longrightarrow> v = None \<or> (\<exists>s. v = Some (JStr s))"
  by (auto simp add: optString_def split: option.splits json.splits)

lemma isString_cases: "isString v \<Longrightarrow> \<exists>s. v = Some (JStr s)"
  by (auto simp add: isString_def split: option.splits json.splits)

lemma isNumber_cases: "isNumber v \<Longrightarrow> \<exists>n. v = Some (JNum n)"
  by (auto simp add: isNumber_def split: option.splits json.splits)

lemma accountName_displayNameFirst: "isAccount u \<Longrightarrow> tpl (accountName u) = Inr (displayNameFirst u)"
proof (cases u)
  case None
  then show ?thesis
    by (simp add: accountName_def displayNameFirst_def dotOpt_def orElse_def dash_def tpl_def stringField_def)
next
  case (Some j)
  assume acc: "isAccount u"
  with Some obtain ms where j: "j = JObj ms"
    by (auto simp add: isAccount_def split: json.splits)
  from acc Some j have "optString (map_of ms ''display_name'')" and "optString (map_of ms ''username'')"
    by (simp_all add: isAccount_def)
  then show ?thesis
    using Some j
    by (auto dest!: optString_cases
        simp add: accountName_def displayNameFirst_def dotOpt_def own_def orElse_def dash_def tpl_def
          stringField_def)
qed

lemma commitAuthor_rawFirst: "isAuthor a \<Longrightarrow> tpl (commitAuthor a) = Inr (rawFirst a)"
proof (cases a)
  case None
  then show ?thesis
    by (simp add: commitAuthor_def rawFirst_def dotOpt_def orElse_def dash_def tpl_def stringField_def
        objectField_def)
next
  case (Some j)
  assume au: "isAuthor a"
  with Some obtain ms where j: "j = JObj ms"
    by (auto simp add: isAuthor_def split: json.splits)
  from au Some j have r: "optString (map_of ms ''raw'')" and u: "isAccount (map_of ms ''user'')"
    by (simp_all add: isAuthor_def)
  show ?thesis
  proof (cases "map_of ms ''user''")
    case None
    with r show ?thesis
      using Some j
      by (auto dest!: optString_cases
          simp add: commitAuthor_def rawFirst_def dotOpt_def own_def orElse_def dash_def tpl_def
            stringField_def objectField_def)
  next
    case (Some w)
    with u obtain us where w: "w = JObj us"
      by (auto simp add: isAccount_def split: json.splits)
    from u Some w have "optString (map_of us ''display_name'')"
      by (simp add: isAccount_def)
    with r show ?thesis
      using Some w j \<open>a = Some j\<close>
      by (auto dest!: optString_cases
          simp add: commitAuthor_def rawFirst_def dotOpt_def own_def orElse_def dash_def tpl_def
            stringField_def objectField_def)
  qed
qed

lemma commitRow_expected: "isCommit c \<Longrightarrow> commitRow D c = Inr (expectedCommitRow D c)"
proof -
  assume c: "isCommit c"
  then obtain kvs where k: "c = JObj kvs"
    by (auto simp add: isCommit_def split: json.splits)
  from c k have h: "isString (map_of kvs ''hash'')" and m: "optString (map_of kvs ''message'')"
    and a: "isAuthor (map_of kvs ''author'')"
    by (simp_all add: isCommit_def)
  from h obtain hs where hs: "map_of kvs ''hash'' = Some (JStr hs)"
    using isString_cases by blast
  have msg: "firstLine50 (orElse (map_of kvs ''message'') dash) =
             Inr (firstLineCell (stringField (Some c) ''message''))"
    using m k
    by (auto dest!: optString_cases
        simp add: firstLine50_def orElse_def dash_def firstLineCell_def stringField_def firstLine_def)
  show ?thesis
    using k hs msg commitAuthor_rawFirst [OF a]
    by (simp add: commitRow_def expectedCommitRow_def dot_def own_def substring0_def
        stringField_def objectField_def)
qed

lemma take_first_line:
  "NL \<notin> set (take n s) \<Longrightarrow> take n (takeWhile (\<lambda>c. c \<noteq> NL) s) = take n s"
proof (induction s arbitrary: n)
  case Nil
  then show ?case by simp
next
  case (Cons a s)
  then show ?case by (cases n) auto
qed

lemma commentRow_expected:
  assumes c: "isComment c" and oneLine: "bodyStartsOnOneLine c"
  shows "commentRow D c = Inr (expectedCommentRow D c)"
proof -
  from c obtain kvs where k: "c = JObj kvs"
    by (auto simp add: isComment_def split: json.splits)
  from c k have i: "isNumber (map_of kvs ''id'')" and ct: "isContent (map_of kvs ''content'')"
    and u: "isAccount (map_of kvs ''user'')"
    by (simp_all add: isComment_def)
  from i obtain n where n: "map_of kvs ''id'' = Some (JNum n)"
    using isNumber_cases by blast
  from oneLine k have nb: "NL \<notin> set (take 50 (stringField (map_of kvs ''content'') ''raw''))"
    by (simp add: bodyStartsOnOneLine_def objectField_def)
  have body: "substring0 50 (orElse (dotOpt (map_of kvs ''content'') ''raw'') dash) =
              Inr (firstLineCell (stringField (map_of kvs ''content'') ''raw''))"
  proof (cases "map_of kvs ''content''")
    case None
    then show ?thesis
      by (simp add: substring0_def orElse_def dotOpt_def dash_def firstLineCell_def stringField_def)
  next
    case (Some j)
    with ct obtain ms where j: "j = JObj ms"
      by (auto simp add: isContent_def split: json.splits)
    from ct Some j have "optString (map_of ms ''raw'')"
      by (simp add: isContent_def)
    then show ?thesis
      using Some j nb
      by (auto dest!: optString_cases
          simp add: substring0_def orElse_def dotOpt_def own_def dash_def firstLineCell_def
            firstLine_def stringField_def take_first_line)
  qed
  show ?thesis
    using k n body accountName_displayNameFirst [OF u]
    by (simp add: commentRow_def expectedCommentRow_def dot_def own_def cells_def field_def tpl_def
        numberField_def objectField_def)
qed

lemma branchName_expected:
  "isEndpoint (map_of kvs side) \<Longrightarrow>
   branchName (JObj kvs) side =
     Inr (stringField (objectField (objectField (Some (JObj kvs)) side) ''branch'') ''name'')"
  by (auto dest!: isString_cases
      simp add: isEndpoint_def branchName_def dot_def own_def tpl_def stringField_def objectField_def
      split: option.splits json.splits)

lemma pullRequestRow_expected: "isPullRequest pr \<Longrightarrow> pullRequestRow pr = Inr (expectedPullRequestRow pr)"
proof -
  assume p: "isPullRequest pr"
  then obtain kvs where k: "pr = JObj kvs"
    by (auto simp add: isPullRequest_def split: json.splits)
  from p k have i: "isNumber (map_of kvs ''id'')" and t: "isString (map_of kvs ''title'')"
    and s: "isString (map_of kvs ''state'')" and a: "isAccount (map_of kvs ''author'')"
    and src: "isEndpoint (map_of kvs ''source'')" and dst: "isEndpoint (map_of kvs ''destination'')"
    by (simp_all add: isPullRequest_def)
  from i obtain n where n: "map_of kvs ''id'' = Some (JNum n)"
    using isNumber_cases by blast
  from t obtain ti where ti: "map_of kvs ''title'' = Some (JStr ti)"
    using isString_cases by blast
  from s obtain st where st: "map_of kvs ''state'' = Some (JStr st)"
    using isString_cases by blast
  show ?thesis
    using k n ti st accountName_displayNameFirst [OF a] branchName_expected [OF src]
      branchName_expected [OF dst]
    by (simp add: pullRequestRow_def expectedPullRequestRow_def dot_def own_def cells_def field_def
        tpl_def numberField_def stringField_def objectField_def)
qed

section \<open>Tables of commits, comments and pull requests\<close>

lemma list_all_set: "list_all P xs \<Longrightarrow> x \<in> set xs \<Longrightarrow> P x"
  by (simp add: list_all_iff)

lemma firstLineCell_bounds: "length (firstLineCell s) \<le> 50 \<and> NL \<notin> set (firstLineCell s)"
proof -
  have "NL \<notin> set (takeWhile (\<lambda>c. c \<noteq> NL) s)"
    by (auto dest: set_takeWhileD)
  then have "NL \<notin> set (take 50 (takeWhile (\<lambda>c. c \<noteq> NL) s))"
    by (meson in_set_takeD)
  then show ?thesis
    by (simp add: firstLineCell_def firstLine_def)
qed

text \<open>
  C6 (as amended). In markdown mode, for every list of commits, the message cell is the
  first line only of the message, cut at 50 characters (a dash when there is no
  message), and the author cell prefers the raw author string, falls back to the user's
  display name and is a dash when both are absent. For every list of comments, the
  author cell prefers the display name, falls back to the username and is a dash when
  both are absent, and the body cell of a body with no line break among its first 50
  characters is the first line only of the body, cut at 50 characters (a dash when
  there is no body).
\<close>

theorem commit_and_comment_cells:
  assumes "list_all isCommit commits" and "list_all isComment comments"
    and "list_all bodyStartsOnOneLine comments"
  shows "formatCommitsTable D commits =
           Inr (tableOf ''| Hash | Message | Author | Date |'' ''|---|---|---|---|''
                  (map (expectedCommitRow D) commits))
         \<and> formatCommentsTable D comments =
             Inr (tableOf ''| ID | Author | Content | Created |'' ''|---|---|---|---|''
                    (map (expectedCommentRow D) comments))
         \<and> length (firstLineCell s) \<le> 50 \<and> NL \<notin> set (firstLineCell s)"
proof -
  have a: "mapE (commitRow D) commits = Inr (map (expectedCommitRow D) commits)"
    using assms(1) by (intro mapE_all_Inr commitRow_expected) (rule list_all_set)
  have b: "mapE (commentRow D) comments = Inr (map (expectedCommentRow D) comments)"
    using assms(2,3) by (intro mapE_all_Inr commentRow_expected) (rule list_all_set, assumption+)+
  show ?thesis
    using firstLineCell_bounds [of s]
    by (simp add: formatCommitsTable_def formatCommentsTable_def a b)
qed

theorem commit_and_comment_cells_witness:
  "formatCommitsTable sampleDate
     [JObj [(''hash'', JStr ''0123456789abcdef''),
            (''message'', JStr (''Fix the parser'' @ [NL] @ [NL] @ ''It dropped the last token.'')),
            (''author'', JObj [(''user'', JObj [(''display_name'', JStr ''Alice'')])]),
            (''date'', JStr ''2024-05-01T10:00:00+00:00'')]] =
     Inr (tableOf ''| Hash | Message | Author | Date |'' ''|---|---|---|---|''
            [''| 0123456 | Fix the parser | Alice | 2024-05-01 |''])
   \<and> formatCommentsTable sampleDate
       [JObj [(''id'', JNum 7), (''content'', JObj [(''raw'', JStr ''Looks good to me'')]),
              (''user'', JObj [(''username'', JStr ''bob'')])]] =
     Inr (tableOf ''| ID | Author | Content | Created |'' ''|---|---|---|---|''
            [''| 7 | bob | Looks good to me | - |''])"
proof -
  have c: "list_all isCommit
     [JObj [(''hash'', JStr ''0123456789abcdef''),
            (''message'', JStr (''Fix the parser'' @ [NL] @ [NL] @ ''It dropped the last token.'')),
            (''author'', JObj [(''user'', JObj [(''display_name'', JStr ''Alice'')])]),
            (''date'', JStr ''2024-05-01T10:00:00+00:00'')]]"
    by code_simp
  have m: "list_all isComment
       [JObj [(''id'', JNum 7), (''content'', JObj [(''raw'', JStr ''Looks good to me'')]),
              (''user'', JObj [(''username'', JStr ''bob'')])]]"
    by code_simp
  have o: "list_all bodyStartsOnOneLine
       [JObj [(''id'', JNum 7), (''content'', JObj [(''raw'', JStr ''Looks good to me'')]),
              (''user'', JObj [(''username'', JStr ''bob'')])]]"
    by code_simp
  have rc: "expectedCommitRow sampleDate
     (JObj [(''hash'', JStr ''0123456789abcdef''),
            (''message'', JStr (''Fix the parser'' @ [NL] @ [NL] @ ''It dropped the last token.'')),
            (''author'', JObj [(''user'', JObj [(''display_name'', JStr ''Alice'')])]),
            (''date'', JStr ''2024-05-01T10:00:00+00:00'')]) =
     ''| 0123456 | Fix the parser | Alice | 2024-05-01 |''"
    by code_simp
  have rm: "expectedCommentRow sampleDate
       (JObj [(''id'', JNum 7), (''content'', JObj [(''raw'', JStr ''Looks good to me'')]),
              (''user'', JObj [(''username'', JStr ''bob'')])]) =
     ''| 7 | bob | Looks good to me | - |''"
    by code_simp
  from commit_and_comment_cells [OF c m o, of sampleDate] show ?thesis
    unfolding list.map rc rm by blast
qed

text \<open>
  C6 as stated fails twice: a commit with a raw author string and a display name shows
  the raw string, not the display name; and a comment's body of two lines is shown with
  its line break, not as its first line. The first is how the commits table is meant to
  read an author; the second is an omission of the comments table, which lacks the cut
  at the line break that the commits table makes.
\<close>

theorem commit_and_comment_cells_counterexample:
  "formatCommitsTable sampleDate
     [JObj [(''hash'', JStr ''0123456789abcdef''), (''message'', JStr ''Fix the parser''),
            (''author'', JObj [(''raw'', JStr ''Bob <bob@example.org>''),
                               (''user'', JObj [(''display_name'', JStr ''Robert''),
                                                (''username'', JStr ''bob'')])])]] =
     Inr (tableOf ''| Hash | Message | Author | Date |'' ''|---|---|---|---|''
            [''| 0123456 | Fix the parser | Bob <bob@example.org> | - |''])
   \<and> formatCommentsTable sampleDate
       [JObj [(''id'', JNum 7), (''content'', JObj [(''raw'', JStr (''line one'' @ [NL] @ ''line two''))]),
              (''user'', JObj [(''username'', JStr ''bob'')])]] =
     Inr (tableOf ''| ID | Author | Content | Created |'' ''|---|---|---|---|''
            [''| 7 | bob | line one'' @ [NL] @ ''line two | - |''])"
  by code_simp

lemma own_pageJson_items: "own (pageJson p) ''items'' = Some (JArr (items p))"
  by (simp add: pageJson_def own_def)

lemma own_pageJson_count: "own (pageJson p) ''count'' = Some (JNum (int (count p)))"
  by (simp add: pageJson_def own_def)

lemma own_pageJson_total: "own (pageJson p) ''total'' = map_option JNum (total p)"
  by (cases "total p"; cases "nextCursor p") (simp_all add: pageJson_def own_def)

lemma own_pageJson_hasMore: "own (pageJson p) ''hasMore'' = Some (JBool (hasMore p))"
  by (cases "total p") (simp_all add: pageJson_def own_def)

lemma isPaginatedResponse_pageJson: "isPaginatedResponse (pageJson p)"
  by (simp add: isPaginatedResponse_def own_pageJson_items)

lemma formatPaginated_pageJson:
  "formatPaginatedAsMarkdown D (pageJson p) entityType =
     (if items p = [] then Inr (join [NL] (pageLines entityType p @ [''_No items found._'']))
      else bindE (tableFor D entityType (items p))
             (\<lambda>t. Inr (join [NL] (pageLines entityType p @ [t]))))"
  by (cases "total p")
    (simp_all add: formatPaginatedAsMarkdown_def showingLine_def own_pageJson_items own_pageJson_count
      own_pageJson_total own_pageJson_hasMore tpl_def pageLines_def Let_def)

text \<open>
  C7. For every non-empty collection of pull requests, markdown mode renders the page
  lines followed by a table whose header is \<open>| ID | Title | State | Author | Source -> Dest |\<close>
  and which has exactly one row per pull request, in the order of the input: the row of
  item \<open>i\<close> holds the id, title, state, author and \<open>source -> destination\<close> of item \<open>i\<close>.
\<close>

theorem pull_request_table:
  assumes "prs \<noteq> []" and "list_all isPullRequest prs" and "items p = prs"
  shows "formatPullRequestsTable prs =
           Inr (tableOf ''| ID | Title | State | Author | Source -> Dest |'' ''|---|---|---|---|---|''
                  (map expectedPullRequestRow prs))
         \<and> formatResponse D (pageJson p) FormatMarkdown ''pullrequests'' =
             Inr (textResponse (join [NL] (pageLines ''pullrequests'' p @
                    [tableOf ''| ID | Title | State | Author | Source -> Dest |'' ''|---|---|---|---|---|''
                       (map expectedPullRequestRow prs)])))
         \<and> formatResponse D (pageJson p) FormatMarkdown ''pull_requests'' =
             Inr (textResponse (join [NL] (pageLines ''pull_requests'' p @
                    [tableOf ''| ID | Title | State | Author | Source -> Dest |'' ''|---|---|---|---|---|''
                       (map expectedPullRequestRow prs)])))
         \<and> length (map expectedPullRequestRow prs) = length prs
         \<and> (\<forall>i < length prs. map expectedPullRequestRow prs ! i = expectedPullRequestRow (prs ! i))"
proof -
  have a: "mapE pullRequestRow prs = Inr (map expectedPullRequestRow prs)"
    using assms(2) by (intro mapE_all_Inr pullRequestRow_expected) (rule list_all_set)
  have t: "formatPullRequestsTable prs =
           Inr (tableOf ''| ID | Title | State | Author | Source -> Dest |'' ''|---|---|---|---|---|''
                  (map expectedPullRequestRow prs))"
    by (simp add: formatPullRequestsTable_def a)
  show ?thesis
    using assms(1,3)
    by (simp add: t formatResponse_def formatAsMarkdown_def isPaginatedResponse_pageJson
        formatPaginated_pageJson tableFor_def)
qed

theorem pull_request_table_witness:
  "formatResponse sampleDate
     (pageJson (convertPaginatedResponse
        \<lparr> size_b = Some 2, page_b = Some 1, pagelen_b = Some 20, next_b = None, previous_b = None,
          values_b =
            [JObj [(''id'', JNum 1), (''title'', JStr ''Add login''), (''state'', JStr ''OPEN''),
                   (''author'', JObj [(''display_name'', JStr ''Alice'')]),
                   (''source'', JObj [(''branch'', JObj [(''name'', JStr ''feature/login'')])]),
                   (''destination'', JObj [(''branch'', JObj [(''name'', JStr ''main'')])])],
             JObj [(''id'', JNum 2), (''title'', JStr ''Fix typo''), (''state'', JStr ''MERGED''),
                   (''author'', JObj [(''username'', JStr ''bob'')]),
                   (''source'', JObj [(''branch'', JObj [(''name'', JStr ''hotfix'')])]),
                   (''destination'', JObj [(''branch'', JObj [(''name'', JStr ''main'')])])]] \<rparr>))
     FormatMarkdown ''pullrequests'' =
   Inr (textResponse (join [NL]
     [''## Pullrequests'', [], ''**Total:** 2 | **Showing:** 2'', [],
      ''| ID | Title | State | Author | Source -> Dest |'',
      ''|---|---|---|---|---|'',
      ''| #1 | Add login | OPEN | Alice | feature/login -> main |'',
      ''| #2 | Fix typo | MERGED | bob | hotfix -> main |'']))"
proof -
  let ?prs = "[JObj [(''id'', JNum 1), (''title'', JStr ''Add login''), (''state'', JStr ''OPEN''),
                   (''author'', JObj [(''display_name'', JStr ''Alice'')]),
                   (''source'', JObj [(''branch'', JObj [(''name'', JStr ''feature/login'')])]),
                   (''destination'', JObj [(''branch'', JObj [(''name'', JStr ''main'')])])],
             JObj [(''id'', JNum 2), (''title'', JStr ''Fix typo''), (''state'', JStr ''MERGED''),
                   (''author'', JObj [(''username'', JStr ''bob'')]),
                   (''source'', JObj [(''branch'', JObj [(''name'', JStr ''hotfix'')])]),
                   (''destination'', JObj [(''branch'', JObj [(''name'', JStr ''main'')])])]]"
  let ?p = "convertPaginatedResponse
        \<lparr> size_b = Some 2, page_b = Some 1, pagelen_b = Some 20, next_b = None, previous_b = None,
          values_b = ?prs \<rparr>"
  have ne: "?prs \<noteq> []" by simp
  have wf: "list_all isPullRequest ?prs" by code_simp
  have it: "items ?p = ?prs" by (simp add: convertPaginatedResponse_def)
  have rows: "map expectedPullRequestRow ?prs =
     [''| #1 | Add login | OPEN | Alice | feature/login -> main |'',
      ''| #2 | Fix typo | MERGED | bob | hotfix -> main |'']"
    by code_simp
  have pl: "pageLines ''pullrequests'' ?p = [''## Pullrequests'', [], ''**Total:** 2 | **Showing:** 2'', []]"
    by code_simp
  have "formatResponse sampleDate (pageJson ?p) FormatMarkdown ''pullrequests'' =
          Inr (textResponse (join [NL] (pageLines ''pullrequests'' ?p @
                 [tableOf ''| ID | Title | State | Author | Source -> Dest |'' ''|---|---|---|---|---|''
                    (map expectedPullRequestRow ?prs)])))"
    using pull_request_table [OF ne wf it, of sampleDate] by blast
  then show ?thesis
    unfolding rows pl tableOf_def by simp
qed

section \<open>Totality of the formatter\<close>

lemma objectEntryLines_total: "\<exists>ls. objectEntryLines kv = Inr ls"
  by (cases "snd kv") (simp_all add: objectEntryLines_def)

lemma formatObjectAsMarkdown_total: "\<exists>t. formatObjectAsMarkdown kvs entityType = Inr t"
proof -
  obtain ls where "mapE objectEntryLines kvs = Inr ls"
    using mapE_total [of kvs objectEntryLines] objectEntryLines_total by blast
  then show ?thesis
    by (simp add: formatObjectAsMarkdown_def)
qed

lemma formatAsMarkdown_single:
  assumes "\<not> isPaginatedResponse data" and "\<forall>xs. data \<noteq> JArr xs"
  shows "\<exists>t. formatAsMarkdown D data entityType = Inr t"
  using assms formatObjectAsMarkdown_total
  by (cases data) (simp_all add: formatAsMarkdown_def)

subsection \<open>Rows and tables that return\<close>

lemma isl_bindE: "isl (bindE m f) = (isl m \<or> isl (f (projr m)))"
  by (cases m) simp_all

lemma isl_mapE: "isl (mapE f xs) = (\<exists>x \<in> set xs. isl (f x))"
  by (induction xs) (auto split: sum.splits)

lemma isl_cells: "isl (cells cs) = (\<exists>c \<in> set cs. isl c)"
  by (simp add: cells_def isl_mapE)

lemma toStr_returns_aux:
  "noToString j \<longrightarrow> \<not> isl (toStr j)"
  "noToStringElems xs \<longrightarrow> \<not> isl (toStrElems xs)"
  "noToStringMembers kvs \<longrightarrow> True"
  by (induction j and xs and kvs rule: noToString_noToStringElems_noToStringMembers.induct)
    (auto split: sum.splits)

lemma toStr_returns:
  "noToString j \<Longrightarrow> \<not> isl (toStr j)"
  "noToStringElems xs \<Longrightarrow> \<not> isl (toStrElems xs)"
  using toStr_returns_aux by blast+

lemma noToStringMembers_lookup:
  "noToStringMembers kvs \<Longrightarrow> map_of kvs k = Some v \<Longrightarrow> noToString v"
  by (induction kvs) (auto split: if_splits)

lemma noToStringElems_member: "noToStringElems xs \<Longrightarrow> v \<in> set xs \<Longrightarrow> noToString v"
  by (induction xs) auto

lemma dot_item: "item \<noteq> JNull \<Longrightarrow> dot (Some item) k = Inr (own item k)"
  by (cases item) (simp_all add: dot_def)

lemma tpl_returns: "printableOpt v \<Longrightarrow> \<not> isl (tpl v)"
  by (cases v) (simp_all add: tpl_def printableOpt_def toStr_returns)

lemma own_printable: "noToString item \<Longrightarrow> printableOpt (own item k)"
  by (cases item) (auto simp add: own_def printableOpt_def split: option.splits dest: noToStringMembers_lookup)

lemma dotOpt_printable: "printableOpt x \<Longrightarrow> printableOpt (dotOpt x k)"
proof (cases x)
  case None
  then show ?thesis by (simp add: dotOpt_def printableOpt_def)
next
  case (Some j)
  assume "printableOpt x"
  with Some have "noToString j" by (simp add: printableOpt_def)
  then have "printableOpt (own j k)" by (rule own_printable)
  with Some show ?thesis
    by (cases j) (simp_all add: dotOpt_def printableOpt_def)
qed

lemma dash_printable: "printableOpt dash"
  by (simp add: dash_def printableOpt_def)

lemma orElse_printable: "printableOpt a \<Longrightarrow> printableOpt b \<Longrightarrow> printableOpt (orElse a b)"
  by (simp add: orElse_def)

lemma field_returns: "item \<noteq> JNull \<Longrightarrow> noToString item \<Longrightarrow> \<not> isl (field item k)"
  by (simp add: field_def dot_item tpl_returns own_printable)

lemma accountName_printable: "printableOpt a \<Longrightarrow> printableOpt (accountName a)"
  by (simp add: accountName_def orElse_printable dotOpt_printable dash_printable)

lemma commitAuthor_printable: "printableOpt a \<Longrightarrow> printableOpt (commitAuthor a)"
  by (simp add: commitAuthor_def orElse_printable dotOpt_printable dash_printable)

lemma substring0_returns: "isString v \<Longrightarrow> \<not> isl (substring0 n v)"
  by (auto simp add: isString_def substring0_def split: option.splits json.splits)

lemma firstLine50_returns: "isString v \<Longrightarrow> \<not> isl (firstLine50 v)"
  by (auto simp add: isString_def firstLine50_def split: option.splits json.splits)

lemma orElse_dash_string: "stringOrFalsy v \<Longrightarrow> isString (orElse v dash)"
  by (auto simp add: stringOrFalsy_def orElse_def dash_def isString_def)

lemma workspaceRow_returns: "rowReads ''workspaces'' item \<Longrightarrow> \<not> isl (workspaceRow item)"
  by (simp add: rowReads_def workspaceRow_def isl_bindE isl_cells field_returns)

lemma repositoryRow_returns: "rowReads ''repositories'' item \<Longrightarrow> \<not> isl (repositoryRow D item)"
  by (simp add: rowReads_def repositoryRow_def isl_bindE isl_cells field_returns dot_item
      tpl_returns orElse_printable own_printable dash_printable)

lemma branchRow_returns: "rowReads ''branches'' item \<Longrightarrow> \<not> isl (branchRow item)"
  by (auto simp add: rowReads_def branchRow_def isl_bindE field_returns dot_item
      substring0_returns stringOrFalsy_def)

lemma commitRow_returns: "rowReads ''commits'' item \<Longrightarrow> \<not> isl (commitRow D item)"
  by (simp add: rowReads_def commitRow_def isl_bindE dot_item substring0_returns
      firstLine50_returns orElse_dash_string tpl_returns commitAuthor_printable own_printable)

lemma branchName_returns:
  assumes "pr \<noteq> JNull" and "noToString pr" and "hasBranch (own pr side)"
  shows "\<not> isl (branchName pr side)"
proof -
  from assms(3) obtain v b where v: "own pr side = Some v" "v \<noteq> JNull"
    and b: "own v ''branch'' = Some b" "b \<noteq> JNull"
    by (auto simp add: hasBranch_def split: option.splits)
  from assms(2) v have "noToString v"
    using own_printable [of pr side] by (simp add: printableOpt_def)
  with b have "noToString b"
    using own_printable [of v "''branch''"] by (simp add: printableOpt_def)
  then have "\<not> isl (tpl (own b ''name''))"
    by (simp add: tpl_returns own_printable)
  then show ?thesis
    using assms(1) v b by (simp add: branchName_def dot_item)
qed

lemma pullRequestRow_returns:
  "rowReads ''pullrequests'' item \<Longrightarrow> \<not> isl (pullRequestRow item)"
  by (simp add: rowReads_def pullRequestRow_def isl_bindE isl_cells dot_item field_returns
      branchName_returns tpl_returns accountName_printable own_printable)

lemma issueRow_returns: "rowReads ''issues'' item \<Longrightarrow> \<not> isl (issueRow item)"
  by (simp add: rowReads_def issueRow_def isl_bindE isl_cells dot_item field_returns
      tpl_returns accountName_printable own_printable)

lemma toNumber_returns: "noToString d \<Longrightarrow> \<not> isl (toNumber d)"
  by (cases d) (simp_all add: toNumber_def isl_bindE toStr_returns del: noToString.simps toStr.simps)

lemma pipelineRow_returns: "rowReads ''pipelines'' item \<Longrightarrow> \<not> isl (pipelineRow D item)"
proof -
  assume r: "rowReads ''pipelines'' item"
  then have nn: "item \<noteq> JNull" and np: "noToString item"
    by (simp_all add: rowReads_def)
  have d: "\<not> isl (case own item ''duration_in_seconds'' of
              None \<Rightarrow> Inr ''-''
            | Some d \<Rightarrow> if truthy (Some d) then bindE (toNumber d) (\<lambda>n. Inr (durationText n)) else Inr ''-'')"
  proof (cases "own item ''duration_in_seconds''")
    case None
    then show ?thesis by simp
  next
    case (Some d)
    with np have "noToString d"
      using own_printable [of item "''duration_in_seconds''"] by (simp add: printableOpt_def)
    then show ?thesis
      using Some by (simp add: isl_bindE toNumber_returns)
  qed
  show ?thesis
    using nn np d
    by (simp add: pipelineRow_def isl_bindE isl_cells dot_item field_returns tpl_returns
        orElse_printable dotOpt_printable own_printable dash_printable)
qed

lemma eventsCell_returns:
  assumes "arrayOrNullish e" and "printableOpt e"
  shows "\<not> isl (eventsCell e) \<and> printableOpt (projr (eventsCell e))"
proof (cases e)
  case None
  then show ?thesis by (simp add: eventsCell_def dash_printable)
next
  case (Some j)
  show ?thesis
  proof (cases j)
    case (JArr xs)
    with Some assms(2) have "\<not> isl (toStrElems xs)"
      by (simp add: printableOpt_def toStr_returns)
    then obtain ss where "toStrElems xs = Inr ss"
      by (cases "toStrElems xs") simp_all
    then show ?thesis
      using Some JArr by (simp add: eventsCell_def orElse_def printableOpt_def dash_def)
  qed (use Some assms(1) in \<open>simp_all add: eventsCell_def arrayOrNullish_def dash_printable\<close>)
qed

lemma webhookRow_returns: "rowReads ''webhooks'' item \<Longrightarrow> \<not> isl (webhookRow item)"
proof -
  assume r: "rowReads ''webhooks'' item"
  then have nn: "item \<noteq> JNull" and np: "noToString item" and ev: "arrayOrNullish (own item ''events'')"
    by (simp_all add: rowReads_def)
  from eventsCell_returns [OF ev own_printable [OF np]]
  show ?thesis
    using nn np
    by (simp add: webhookRow_def isl_bindE isl_cells dot_item field_returns tpl_returns)
qed

lemma commentRow_returns: "rowReads ''comments'' item \<Longrightarrow> \<not> isl (commentRow D item)"
  by (simp add: rowReads_def commentRow_def isl_bindE isl_cells dot_item field_returns
      substring0_returns orElse_dash_string tpl_returns accountName_printable own_printable)

lemma objectKeys_returns: "first \<noteq> JNull \<Longrightarrow> \<not> isl (objectKeys first)"
  by (cases first) (simp_all add: objectKeys_def)

lemma indexBy_returns:
  assumes "item \<noteq> JNull" and "noToString item"
  shows "\<not> isl (indexBy item k) \<and> printableOpt (projr (indexBy item k))"
proof (cases item)
  case (JArr xs)
  have "printableOpt (map_of (zip (indexKeys (length xs)) xs) k)"
  proof (cases "map_of (zip (indexKeys (length xs)) xs) k")
    case None
    then show ?thesis by (simp add: printableOpt_def)
  next
    case (Some v)
    then have "v \<in> set xs"
      by (meson map_of_SomeD set_zip_rightD)
    with assms(2) JArr show ?thesis
      using Some by (simp add: printableOpt_def noToStringElems_member)
  qed
  then show ?thesis
    using JArr by (simp add: indexBy_def printableOpt_def)
next
  case (JStr s)
  have "printableOpt (map_of (zip (indexKeys (length s)) (map (\<lambda>c. JStr [c]) s)) k)"
  proof (cases "map_of (zip (indexKeys (length s)) (map (\<lambda>c. JStr [c]) s)) k")
    case None
    then show ?thesis by (simp add: printableOpt_def)
  next
    case (Some v)
    then have "v \<in> set (map (\<lambda>c. JStr [c]) s)"
      by (meson map_of_SomeD set_zip_rightD)
    then show ?thesis
      using Some by (auto simp add: printableOpt_def)
  qed
  then show ?thesis
    using JStr by (simp add: indexBy_def printableOpt_def)
next
  case (JObj kvs)
  with assms(2) show ?thesis
    using own_printable [of item k] by (simp add: indexBy_def own_def)
qed (use assms(1) in \<open>simp_all add: indexBy_def printableOpt_def\<close>)

lemma genericCell_returns:
  assumes "item \<noteq> JNull" and "noToString item"
  shows "\<not> isl (genericCell item k)"
proof -
  from indexBy_returns [OF assms, of k] obtain v where v: "indexBy item k = Inr v" and p: "printableOpt v"
    by (cases "indexBy item k") simp_all
  show ?thesis
  proof (cases v)
    case None
    with v show ?thesis by (simp add: genericCell_def)
  next
    case (Some j)
    with p have "\<not> isl (toStr j)"
      by (simp add: printableOpt_def toStr_returns)
    with v Some show ?thesis
      by (cases j) (simp_all add: genericCell_def)
  qed
qed

lemma genericRow_returns: "item \<noteq> JNull \<Longrightarrow> noToString item \<Longrightarrow> \<not> isl (genericRow keys item)"
  by (simp add: genericRow_def isl_bindE isl_mapE genericCell_returns)

lemma genericRow_no_keys: "\<not> isl (genericRow [] item)"
  by (simp add: genericRow_def)

lemma formatGenericTable_returns: "genericReads its \<Longrightarrow> \<not> isl (formatGenericTable its)"
proof (cases its)
  case Nil
  then show ?thesis by (simp add: formatGenericTable_def)
next
  case (Cons first rest)
  assume g: "genericReads its"
  with Cons have nn: "first \<noteq> JNull"
    and alt: "objectKeys first = Inr [] \<or> list_all (\<lambda>item. item \<noteq> JNull \<and> noToString item) its"
    by (auto simp add: genericReads_def)
  from nn obtain ks where ks: "objectKeys first = Inr ks"
    using objectKeys_returns [of first] by (cases "objectKeys first") simp_all
  have rows: "\<not> isl (mapE (genericRow (take 5 ks)) its)"
  proof (cases "ks = []")
    case True
    then show ?thesis by (simp add: isl_mapE genericRow_no_keys)
  next
    case False
    with alt ks have "list_all (\<lambda>item. item \<noteq> JNull \<and> noToString item) its" by simp
    then show ?thesis
      by (auto simp add: isl_mapE list_all_iff genericRow_returns)
  qed
  show ?thesis
    using Cons ks rows by (simp add: formatGenericTable_def isl_bindE Let_def)
qed

lemma tableFor_returns:
  assumes "if knownKind entityType then list_all (rowReads entityType) its else genericReads its"
  shows "\<not> isl (tableFor D entityType its)"
proof (cases "knownKind entityType")
  case False
  with assms have "genericReads its" by simp
  then have "\<not> isl (formatGenericTable its)" by (rule formatGenericTable_returns)
  with False show ?thesis
    by (simp add: knownKind_def tableFor_def)
next
  case True
  with assms have all: "\<And>x. x \<in> set its \<Longrightarrow> rowReads entityType x"
    by (simp add: list_all_iff)
  have pr: "\<And>x. rowReads ''pull_requests'' x \<Longrightarrow> rowReads ''pullrequests'' x"
    by (simp add: rowReads_def)
  from True have "entityType = ''workspaces'' \<or> entityType = ''repositories''
    \<or> entityType = ''branches'' \<or> entityType = ''commits'' \<or> entityType = ''pullrequests''
    \<or> entityType = ''pull_requests'' \<or> entityType = ''issues'' \<or> entityType = ''pipelines''
    \<or> entityType = ''webhooks'' \<or> entityType = ''comments''"
    unfolding knownKind_def by (simp only: list.set insert_iff empty_iff simp_thms)
  then show ?thesis
  proof (elim disjE)
    assume "entityType = ''workspaces''"
    with all show ?thesis
      by (simp add: tableFor_def formatWorkspacesTable_def isl_bindE isl_mapE workspaceRow_returns)
  next
    assume "entityType = ''repositories''"
    with all show ?thesis
      by (simp add: tableFor_def formatRepositoriesTable_def isl_bindE isl_mapE repositoryRow_returns)
  next
    assume "entityType = ''branches''"
    with all show ?thesis
      by (simp add: tableFor_def formatBranchesTable_def isl_bindE isl_mapE branchRow_returns)
  next
    assume "entityType = ''commits''"
    with all show ?thesis
      by (simp add: tableFor_def formatCommitsTable_def isl_bindE isl_mapE commitRow_returns)
  next
    assume "entityType = ''pullrequests''"
    with all show ?thesis
      by (simp add: tableFor_def formatPullRequestsTable_def isl_bindE isl_mapE pullRequestRow_returns)
  next
    assume "entityType = ''pull_requests''"
    with all pr show ?thesis
      by (simp add: tableFor_def formatPullRequestsTable_def isl_bindE isl_mapE pullRequestRow_returns)
  next
    assume "entityType = ''issues''"
    with all show ?thesis
      by (simp add: tableFor_def formatIssuesTable_def isl_bindE isl_mapE issueRow_returns)
  next
    assume "entityType = ''pipelines''"
    with all show ?thesis
      by (simp add: tableFor_def formatPipelinesTable_def isl_bindE isl_mapE pipelineRow_returns)
  next
    assume "entityType = ''webhooks''"
    with all show ?thesis
      by (simp add: tableFor_def formatWebhooksTable_def isl_bindE isl_mapE webhookRow_returns)
  next
    assume "entityType = ''comments''"
    with all show ?thesis
      by (simp add: tableFor_def formatCommentsTable_def isl_bindE isl_mapE commentRow_returns)
  qed
qed

lemma formatAsMarkdown_returns:
  assumes "renderable data entityType"
  shows "\<not> isl (formatAsMarkdown D data entityType)"
proof (cases "isPaginatedResponse data")
  case True
  then obtain its where its: "own data ''items'' = Some (JArr its)"
    by (auto simp add: isPaginatedResponse_def split: option.splits json.splits)
  with assms have t: "printableOpt (own data ''total'')" and c: "printableOpt (own data ''count'')"
    and rows: "if knownKind entityType then list_all (rowReads entityType) its else genericReads its"
    by (simp_all add: renderable_def)
  have s: "\<not> isl (showingLine data)"
    using t c by (simp add: showingLine_def isl_bindE tpl_returns)
  have "\<not> isl (formatPaginatedAsMarkdown D data entityType)"
    using s its tableFor_returns [OF rows, of D]
    by (simp add: formatPaginatedAsMarkdown_def isl_bindE Let_def)
  with True show ?thesis
    by (simp add: formatAsMarkdown_def)
next
  case False
  show ?thesis
  proof (cases "\<exists>xs. data = JArr xs")
    case True
    then obtain xs where xs: "data = JArr xs" by blast
    with assms have "genericReads xs"
      by (simp add: renderable_def own_def)
    then have "\<not> isl (formatGenericTable xs)" by (rule formatGenericTable_returns)
    with False xs show ?thesis
      by (simp add: formatAsMarkdown_def formatArrayAsMarkdown_def)
  next
    case notArr: False
    with False obtain t where "formatAsMarkdown D data entityType = Inr t"
      using formatAsMarkdown_single [of data D entityType] by blast
    then show ?thesis by simp
  qed
qed

subsection \<open>Pages of typed entities\<close>

lemma typed_page_returns:
  assumes "\<And>xs. list_all P xs \<Longrightarrow> \<exists>t. tableFor D entityType xs = Inr t" and "list_all P (items p)"
  shows "\<exists>t. formatResponse D (pageJson p) FormatMarkdown entityType = Inr (textResponse t)"
proof -
  obtain t where "tableFor D entityType (items p) = Inr t"
    using assms by blast
  then show ?thesis
    by (auto simp add: formatResponse_def formatAsMarkdown_def isPaginatedResponse_pageJson
        formatPaginated_pageJson)
qed

lemma pullRequests_table_returns:
  "list_all isPullRequest xs \<Longrightarrow> \<exists>t. tableFor D ''pullrequests'' xs = Inr t"
proof -
  assume "list_all isPullRequest xs"
  then have "mapE pullRequestRow xs = Inr (map expectedPullRequestRow xs)"
    by (intro mapE_all_Inr pullRequestRow_expected) (rule list_all_set)
  then show ?thesis
    by (simp add: tableFor_def formatPullRequestsTable_def)
qed

lemma commits_table_returns:
  "list_all isCommit xs \<Longrightarrow> \<exists>t. tableFor D ''commits'' xs = Inr t"
proof -
  assume "list_all isCommit xs"
  then have "mapE (commitRow D) xs = Inr (map (expectedCommitRow D) xs)"
    by (intro mapE_all_Inr commitRow_expected) (rule list_all_set)
  then show ?thesis
    by (simp add: tableFor_def formatCommitsTable_def)
qed

lemma commentRow_typed_returns: "isComment c \<Longrightarrow> \<not> isl (commentRow D c)"
proof -
  assume c: "isComment c"
  then obtain kvs where k: "c = JObj kvs"
    by (auto simp add: isComment_def split: json.splits)
  from c k have i: "isNumber (map_of kvs ''id'')" and ct: "isContent (map_of kvs ''content'')"
    and u: "isAccount (map_of kvs ''user'')"
    by (simp_all add: isComment_def)
  from i obtain n where n: "map_of kvs ''id'' = Some (JNum n)"
    using isNumber_cases by blast
  have "optString (dotOpt (map_of kvs ''content'') ''raw'')"
    using ct by (auto simp add: isContent_def dotOpt_def own_def optString_def split: option.splits json.splits)
  then have "stringOrFalsy (dotOpt (map_of kvs ''content'') ''raw'')"
    by (auto dest!: optString_cases simp add: stringOrFalsy_def isString_def)
  then have body: "\<not> isl (substring0 50 (orElse (dotOpt (map_of kvs ''content'') ''raw'') dash))"
    by (simp add: substring0_returns orElse_dash_string)
  show ?thesis
    using k n body accountName_displayNameFirst [OF u]
    by (simp add: commentRow_def dot_def own_def cells_def field_def tpl_def isl_bindE)
qed

lemma comments_table_returns:
  "list_all isComment xs \<Longrightarrow> \<exists>t. tableFor D ''comments'' xs = Inr t"
proof -
  assume "list_all isComment xs"
  then have "\<not> isl (mapE (commentRow D) xs)"
    by (simp add: isl_mapE list_all_iff commentRow_typed_returns)
  then have "\<not> isl (tableFor D ''comments'' xs)"
    by (simp add: tableFor_def formatCommentsTable_def isl_bindE)
  then show ?thesis
    by (cases "tableFor D ''comments'' xs") simp_all
qed

text \<open>
  C4 (as amended). \<open>formatResponse\<close> returns a response in JSON mode for every JSON
  value. In markdown mode it returns a response for every value that is no collection
  and for every page or array \<open>renderable\<close> for its entity kind, known or unknown:
  one in which no item read is \<open>null\<close> (in a generic table of items without keys,
  such as numbers, only the first is read), no object has a property named
  \<open>toString\<close>, and the fields a table reads unguarded are there (the \<open>hash\<close> of a
  commit, the \<open>source\<close> and \<open>destination\<close> branch of a pull request) and of the
  type the table needs (a string or nothing for a commit message, a comment body and a
  branch target hash; an array or nothing for the events of a webhook). This covers
  the empty array and the page without items (the placeholder line), arrays whose
  first element is not an object, collections of unknown kind, and the pages of pull
  requests, commits and comments that have the fields of their interfaces. The
  response carries no error flag.
\<close>

theorem formatResponse_total_amended:
  assumes "renderable data entityType"
    and "list_all isPullRequest (items prPage)" and "list_all isCommit (items commitPage)"
    and "list_all isComment (items commentPage)" and "items p = []"
  shows "formatResponse D v FormatJson entityType = Inr (textResponse (stringify v))
         \<and> (\<exists>t. formatResponse D data FormatMarkdown entityType = Inr (textResponse t))
         \<and> formatResponse D (pageJson p) FormatMarkdown entityType =
             Inr (textResponse (join [NL] (pageLines entityType p @ [''_No items found._''])))
         \<and> formatResponse D (JArr []) FormatMarkdown entityType = Inr (textResponse ''_No items_'')
         \<and> (\<exists>t. formatResponse D (pageJson prPage) FormatMarkdown ''pullrequests'' = Inr (textResponse t))
         \<and> (\<exists>t. formatResponse D (pageJson commitPage) FormatMarkdown ''commits'' = Inr (textResponse t))
         \<and> (\<exists>t. formatResponse D (pageJson commentPage) FormatMarkdown ''comments'' = Inr (textResponse t))
         \<and> isError (textResponse t) = None"
proof -
  obtain u where u: "formatAsMarkdown D data entityType = Inr u"
    using formatAsMarkdown_returns [OF assms(1), of D] by (cases "formatAsMarkdown D data entityType") simp_all
  have general: "\<exists>t. formatResponse D data FormatMarkdown entityType = Inr (textResponse t)"
    by (auto simp add: formatResponse_def u)
  have arr: "formatResponse D (JArr []) FormatMarkdown entityType = Inr (textResponse ''_No items_'')"
    by (simp add: formatResponse_def formatAsMarkdown_def isPaginatedResponse_def own_def
        formatArrayAsMarkdown_def formatGenericTable_def)
  have page: "formatResponse D (pageJson p) FormatMarkdown entityType =
             Inr (textResponse (join [NL] (pageLines entityType p @ [''_No items found._''])))"
    using assms(5)
    by (simp add: formatResponse_def formatAsMarkdown_def isPaginatedResponse_pageJson
        formatPaginated_pageJson)
  have js: "formatResponse D v FormatJson entityType = Inr (textResponse (stringify v))"
    by (simp add: formatResponse_def)
  have flag: "isError (textResponse t) = None"
    by (simp add: textResponse_def)
  have prs: "\<exists>t. formatResponse D (pageJson prPage) FormatMarkdown ''pullrequests'' = Inr (textResponse t)"
    using typed_page_returns [of isPullRequest D "''pullrequests''" prPage] pullRequests_table_returns assms(2)
    by blast
  have cms: "\<exists>t. formatResponse D (pageJson commitPage) FormatMarkdown ''commits'' = Inr (textResponse t)"
    using typed_page_returns [of isCommit D "''commits''" commitPage] commits_table_returns assms(3)
    by blast
  have cmt: "\<exists>t. formatResponse D (pageJson commentPage) FormatMarkdown ''comments'' = Inr (textResponse t)"
    using typed_page_returns [of isComment D "''comments''" commentPage] comments_table_returns assms(4)
    by blast
  show ?thesis
    using general arr page js flag prs cms cmt by blast
qed

theorem formatResponse_total_amended_witness:
  "(\<exists>t. formatResponse sampleDate (JArr [JNum 1, JStr ''ab'', JNull]) FormatMarkdown ''files'' =
          Inr (textResponse t))
   \<and> (\<exists>t. formatResponse sampleDate
          (JObj [(''items'', JArr [JObj [(''permission'', JStr ''owner''),
                                         (''user'', JObj [(''display_name'', JStr ''Alice'')])],
                                   JStr ''collaborator'']),
                 (''count'', JNum 2)])
          FormatMarkdown ''members'' = Inr (textResponse t))
   \<and> (\<exists>t. formatResponse sampleDate (JObj [(''slug'', JStr ''team''), (''links'', JObj []), (''name'', JNull)])
          FormatMarkdown ''workspace'' = Inr (textResponse t))
   \<and> (\<exists>t. formatResponse sampleDate
          (JObj [(''items'', JArr [JObj [(''slug'', JStr ''team''), (''name'', JStr ''Team'')],
                                   JObj [(''slug'', JStr ''ops''), (''is_private'', JBool True)]]),
                 (''count'', JNum 2), (''total'', JNum 2)])
          FormatMarkdown ''workspaces'' = Inr (textResponse t))
   \<and> formatResponse sampleDate (pageJson emptyPaginatedResponse) FormatMarkdown ''files'' =
       Inr (textResponse (join [NL] [''## Files'', [], ''**Showing:** 0'', [], ''_No items found._'']))
   \<and> (\<exists>t. formatResponse sampleDate
          (pageJson \<lparr> items = [JObj [(''id'', JNum 3), (''title'', JStr ''Bump version''), (''state'', JStr ''OPEN''),
                                      (''source'', JObj [(''branch'', JObj [(''name'', JStr ''release'')])]),
                                      (''destination'', JObj [(''branch'', JObj [(''name'', JStr ''main'')])])]],
                      count = 1, total = None, hasMore = False, nextCursor = None \<rparr>)
          FormatMarkdown ''pullrequests'' = Inr (textResponse t))"
proof -
  have a1: "renderable (JArr [JNum 1, JStr ''ab'', JNull]) ''files''"
    by code_simp
  have a2: "renderable
          (JObj [(''items'', JArr [JObj [(''permission'', JStr ''owner''),
                                         (''user'', JObj [(''display_name'', JStr ''Alice'')])],
                                   JStr ''collaborator'']),
                 (''count'', JNum 2)]) ''members''"
    by code_simp
  have a3: "renderable (JObj [(''slug'', JStr ''team''), (''links'', JObj []), (''name'', JNull)]) ''workspace''"
    by code_simp
  have a4: "renderable
          (JObj [(''items'', JArr [JObj [(''slug'', JStr ''team''), (''name'', JStr ''Team'')],
                                   JObj [(''slug'', JStr ''ops''), (''is_private'', JBool True)]]),
                 (''count'', JNum 2), (''total'', JNum 2)]) ''workspaces''"
    by code_simp
  have c: "items (emptyPaginatedResponse :: json PaginatedResponse) = []"
    by (simp add: emptyPaginatedResponse_def)
  have d: "list_all isPullRequest
     (items \<lparr> items = [JObj [(''id'', JNum 3), (''title'', JStr ''Bump version''), (''state'', JStr ''OPEN''),
                              (''source'', JObj [(''branch'', JObj [(''name'', JStr ''release'')])]),
                              (''destination'', JObj [(''branch'', JObj [(''name'', JStr ''main'')])])]],
              count = 1, total = None, hasMore = False, nextCursor = None \<rparr>)"
    by code_simp
  have e: "list_all isCommit
     (items \<lparr> items = [JObj [(''hash'', JStr ''0123456789abcdef'')]],
              count = 1, total = None, hasMore = False, nextCursor = None \<rparr>)"
    by code_simp
  have f: "list_all isComment
     (items \<lparr> items = [JObj [(''id'', JNum 7)]],
              count = 1, total = None, hasMore = False, nextCursor = None \<rparr>)"
    by code_simp
  have pl: "pageLines ''files'' emptyPaginatedResponse = [''## Files'', [], ''**Showing:** 0'', []]"
    by code_simp
  have "formatResponse sampleDate (pageJson emptyPaginatedResponse) FormatMarkdown ''files'' =
          Inr (textResponse (join [NL] (pageLines ''files'' emptyPaginatedResponse @ [''_No items found._''])))"
    using formatResponse_total_amended [OF a1 d e f c, of sampleDate JNull] by blast
  then have "formatResponse sampleDate (pageJson emptyPaginatedResponse) FormatMarkdown ''files'' =
       Inr (textResponse (join [NL] [''## Files'', [], ''**Showing:** 0'', [], ''_No items found._'']))"
    unfolding pl by simp
  then show ?thesis
    using formatResponse_total_amended [OF a1 d e f c, of sampleDate JNull]
      formatResponse_total_amended [OF a2 d e f c, of sampleDate JNull]
      formatResponse_total_amended [OF a3 d e f c, of sampleDate JNull]
      formatResponse_total_amended [OF a4 d e f c, of sampleDate JNull]
    by blast
qed

text \<open>
  C4 as stated fails where a table reads a field unchecked or prints an object that
  cannot be printed: a pull request without \<open>source\<close>, a commit without \<open>hash\<close>,
  an array whose first element is \<open>null\<close>, an item holding an object with a property
  named \<open>toString\<close> and a commit whose message is a number each make
  \<open>formatResponse\<close> throw in markdown mode.
\<close>

theorem formatResponse_throws_counterexample:
  "isl (formatResponse sampleDate
      (pageJson \<lparr> items = [JObj [(''id'', JNum 1), (''title'', JStr ''Add login''), (''state'', JStr ''OPEN'')]],
                  count = 1, total = None, hasMore = False, nextCursor = None \<rparr>)
      FormatMarkdown ''pullrequests'')
   \<and> isl (formatResponse sampleDate
      (pageJson \<lparr> items = [JObj [(''message'', JStr ''Initial commit'')]],
                  count = 1, total = None, hasMore = False, nextCursor = None \<rparr>)
      FormatMarkdown ''commits'')
   \<and> isl (formatResponse sampleDate (JArr [JNull]) FormatMarkdown ''files'')
   \<and> isl (formatResponse sampleDate (JArr [JObj [(''owner'', JObj [(''toString'', JNum 1)])]])
             FormatMarkdown ''files'')
   \<and> isl (formatResponse sampleDate
      (pageJson \<lparr> items = [JObj [(''hash'', JStr ''0123456789abcdef''), (''message'', JNum 5)]],
                  count = 1, total = None, hasMore = False, nextCursor = None \<rparr>)
      FormatMarkdown ''commits'')"
  by code_simp

section \<open>Tool handlers\<close>

text \<open>
  C3 (as amended). A tool handler always returns a \<open>ToolResponse\<close>, whatever the client
  call does: when the call throws, the result of \<open>formatError\<close>, flagged
  \<open>isError = true\<close>; when the call succeeds, the response built from its result,
  without error flag (always in JSON mode), unless building it throws (the markdown
  formatter can), in which case the handler's \<open>catch\<close> again returns the result of
  \<open>formatError\<close>. No exception leaves the handler.
\<close>

theorem tool_handler_always_responds:
  "toolHandler E (Inl error) respond = formatError E error
   \<and> isError (formatError E error) = Some True
   \<and> toolHandler E (Inr result) respond =
       (case respond result of Inl thrownByRespond \<Rightarrow> formatError E thrownByRespond | Inr r \<Rightarrow> r)
   \<and> (isError (toolHandler E call respond) = Some True
       \<or> (\<exists>res r. call = Inr res \<and> respond res = Inr r \<and> toolHandler E call respond = r))
   \<and> listWorkspacesTool E D (Inl error) format = formatError E error
   \<and> listWorkspacesTool E D (Inr data) FormatJson = textResponse (stringify data)
   \<and> isError (textResponse t) = None
   \<and> listWorkspacesTool E D (Inr data) FormatMarkdown =
       (case formatAsMarkdown D data ''workspaces'' of
          Inl thrownByFormatter \<Rightarrow> formatError E thrownByFormatter
        | Inr t \<Rightarrow> textResponse t)"
proof -
  have e: "\<And>x. isError (formatError E x) = Some True"
    by (simp add: formatError_def Let_def)
  have all: "isError (toolHandler E call respond) = Some True
       \<or> (\<exists>res r. call = Inr res \<and> respond res = Inr r \<and> toolHandler E call respond = r)"
  proof (cases call)
    case (Inl x)
    then show ?thesis by (simp add: toolHandler_def e)
  next
    case (Inr res)
    then show ?thesis by (cases "respond res") (simp_all add: toolHandler_def e)
  qed
  have md: "listWorkspacesTool E D (Inr data) FormatMarkdown =
       (case formatAsMarkdown D data ''workspaces'' of
          Inl thrownByFormatter \<Rightarrow> formatError E thrownByFormatter
        | Inr t \<Rightarrow> textResponse t)"
    by (cases "formatAsMarkdown D data ''workspaces''")
      (simp_all add: listWorkspacesTool_def toolHandler_def formatResponse_def)
  show ?thesis
    using all md
    by (simp add: toolHandler_def e listWorkspacesTool_def formatResponse_def textResponse_def)
qed

text \<open>
  C3 as stated fails where the client call succeeds and the formatter throws: the page
  holds a pull request without \<open>source\<close>, and the response is flagged as an error.
\<close>

theorem tool_handler_success_flagged_counterexample:
  "isError (listPullRequestsTool sampleErrors sampleDate
      (Inr (pageJson \<lparr> items = [JObj [(''id'', JNum 1), (''title'', JStr ''Add login''), (''state'', JStr ''OPEN'')]],
                       count = 1, total = None, hasMore = False, nextCursor = None \<rparr>))
      FormatMarkdown) = Some True"
  by (simp add: listPullRequestsTool_def toolHandler_def formatResponse_def formatAsMarkdown_def
      isPaginatedResponse_pageJson formatPaginated_pageJson tableFor_def formatPullRequestsTable_def
      pullRequestRow_def branchName_def dot_def own_def formatError_def Let_def)

end
